theory Spec2Isabelle
  imports Complex_Main "HOL-Library.Monad_Syntax" "HOL-Library.Word"
begin

section \<open>Variable layer height slicing (libslic3r/Slicing.cpp)\<close>

text \<open>
  The C++ type \<open>coordf_t\<close> is \<open>double\<close>. It is modelled by \<open>real\<close>: exact arithmetic,
  no rounding, no infinities and no NaN. A layer height profile
  \<open>std::vector<coordf_t>\<close> is a \<open>real list\<close> holding \<open>[z0, h0, z1, h1, ...]\<close>.
  An index of type \<open>size_t\<close> is a \<open>nat\<close>, with the wrap-around modulo \<open>2 ^ 64\<close>
  written out where the source subtracts from it, and where it adds to the result.
  An index that the source has just compared with \<open>size()\<close> is incremented without
  it: a vector of \<open>double\<close> has fewer than \<open>2 ^ 61\<close> elements.
  A read or a write of a vector outside its bounds is undefined behaviour in C++; in
  the model it yields \<open>None\<close>, unless the source guards it by a test written next
  to it.
\<close>

subsection \<open>Constants and helpers of libslic3r.h\<close>

text \<open>Modelled from the spec: \<open>EPSILON\<close> is a macro of libslic3r.h, the spec gives 1e-4.\<close>

definition EPSILON :: real where
  "EPSILON = 1 / 10000"

text \<open>Modelled from the spec: \<open>lerp\<close> of libslic3r.h, the linear interpolation
  between \<open>a\<close> and \<open>b\<close>.\<close>

definition lerp :: "real \<Rightarrow> real \<Rightarrow> real \<Rightarrow> real" where
  "lerp a b t = (1 - t) * a + t * b"

text \<open>Modelled from the spec: \<open>clamp(low, high, value)\<close> of libslic3r.h, the value
  clamped into \<open>[low, high]\<close>.\<close>

definition clamp :: "real \<Rightarrow> real \<Rightarrow> real \<Rightarrow> real" where
  "clamp low high v = max low (min high v)"

text \<open>A checked read \<open>v[i]\<close> of a vector.\<close>

definition rd :: "'a list \<Rightarrow> nat \<Rightarrow> 'a option" where
  "rd v i = (if i < length v then Some (v ! i) else None)"

text \<open>\<open>size_t\<close> arithmetic: 64 bit, unsigned, wrapping. The operands are values of
  \<open>size_t\<close>, below \<open>2 ^ 64\<close>: a difference wraps when it would be negative, a sum when it
  reaches \<open>2 ^ 64\<close>.\<close>

definition size_add :: "nat \<Rightarrow> nat \<Rightarrow> nat" where
  "size_add a b = (if a + b < 2 ^ 64 then a + b else a + b - 2 ^ 64)"

definition size_sub :: "nat \<Rightarrow> nat \<Rightarrow> nat" where
  "size_sub a b = (if b \<le> a then a - b else a + 2 ^ 64 - b)"

subsection \<open>SlicingParameters\<close>

text \<open>
  The fields of \<open>SlicingParameters\<close> (Slicing.hpp) that the profile functions read.
\<close>

record SlicingParameters =
  layer_height :: real
  min_layer_height :: real
  max_layer_height :: real
  first_print_layer_height :: real
  first_object_layer_height :: real
  first_object_layer_bridging :: bool
  base_raft_layers :: nat
  interface_raft_layers :: nat
  object_print_z_min :: real
  object_print_z_max :: real

text \<open>Modelled from the spec: the derived predicates of Slicing.hpp,
  \<open>raft_layers()\<close> the total raft layer count, \<open>has_raft()\<close> =
  \<open>base_raft_layers + interface_raft_layers > 0\<close>,
  \<open>first_object_layer_height_fixed()\<close> =
  \<open>has_raft() \<or> first_print_layer_height \<noteq> layer_height\<close> and
  \<open>object_print_z_height\<close> = \<open>max - min\<close>.\<close>

definition raft_layers :: "SlicingParameters \<Rightarrow> nat" where
  "raft_layers sp = base_raft_layers sp + interface_raft_layers sp"

definition has_raft :: "SlicingParameters \<Rightarrow> bool" where
  "has_raft sp = (raft_layers sp > 0)"

definition first_object_layer_height_fixed :: "SlicingParameters \<Rightarrow> bool" where
  "first_object_layer_height_fixed sp =
     (has_raft sp \<or> first_print_layer_height sp \<noteq> layer_height sp)"

definition object_print_z_height :: "SlicingParameters \<Rightarrow> real" where
  "object_print_z_height sp = object_print_z_max sp - object_print_z_min sp"

subsection \<open>layer_height_profile_from_ranges\<close>

text \<open>
  \<open>t_layer_height_ranges\<close> is a \<open>std::map\<close> from \<open>(lo, hi)\<close> to a height; the function only
  iterates over it, so it is the list of its entries in iteration order.
\<close>

type_synonym layer_height_range = "(real \<times> real) \<times> real"

text \<open>Step 1: trim each range by the last one kept; \<open>acc\<close> is
  \<open>ranges_non_overlapping\<close>.\<close>

fun trim_ranges ::
  "SlicingParameters \<Rightarrow> layer_height_range list \<Rightarrow> layer_height_range list
    \<Rightarrow> layer_height_range list" where
  "trim_ranges sp acc [] = acc"
| "trim_ranges sp acc (((lo0, hi0), height) # rest) =
     (let hi = min hi0 (object_print_z_height sp);
          lo = (if acc \<noteq> [] then max lo0 (snd (fst (last acc))) else lo0)
      in if lo + EPSILON < hi
         then trim_ranges sp (acc @ [((lo, hi), height)]) rest
         else trim_ranges sp acc rest)"

text \<open>Step 2: emit the profile; \<open>p\<close> is \<open>layer_height_profile\<close>. The read at
  \<open>size() - 2\<close> is guarded by \<open>empty()\<close>, and four entries are pushed at a time.\<close>

definition profile_last_z :: "real list \<Rightarrow> real" where
  "profile_last_z p = (if p = [] then 0 else p ! (length p - 2))"

fun emit_ranges ::
  "SlicingParameters \<Rightarrow> real list \<Rightarrow> layer_height_range list \<Rightarrow> real list" where
  "emit_ranges sp p [] = p"
| "emit_ranges sp p (((lo, hi), height) # rest) =
     (let last_z = profile_last_z p;
          p1 = (if lo > last_z + EPSILON
                then p @ [last_z, layer_height sp, lo, layer_height sp] else p)
      in emit_ranges sp (p1 @ [lo, height, hi, height]) rest)"

definition ranges_non_overlapping ::
  "SlicingParameters \<Rightarrow> layer_height_range list \<Rightarrow> layer_height_range list" where
  "ranges_non_overlapping sp layer_height_ranges =
     trim_ranges sp
       (if first_object_layer_height_fixed sp
        then [((0, first_object_layer_height sp), first_object_layer_height sp)] else [])
       layer_height_ranges"

definition layer_height_profile_from_ranges ::
  "SlicingParameters \<Rightarrow> layer_height_range list \<Rightarrow> real list" where
  "layer_height_profile_from_ranges sp layer_height_ranges =
     (let p = emit_ranges sp [] (ranges_non_overlapping sp layer_height_ranges);
          last_z = profile_last_z p
      in if last_z < object_print_z_height sp
         then p @ [last_z, layer_height sp, object_print_z_height sp, layer_height sp]
         else p)"

subsection \<open>adjust_layer_height_profile\<close>

datatype LayerHeightEditActionType =
  LAYER_HEIGHT_EDIT_ACTION_INCREASE
| LAYER_HEIGHT_EDIT_ACTION_DECREASE
| LAYER_HEIGHT_EDIT_ACTION_REDUCE
| LAYER_HEIGHT_EDIT_ACTION_SMOOTH

text \<open>Step 1 of the function: the layer thickness at \<open>z\<close>; \<open>i\<close> is the loop index and
  \<open>dflt\<close> the value \<open>slicing_params.layer_height\<close> the variable starts with.\<close>

function current_layer_height_loop ::
  "real \<Rightarrow> real list \<Rightarrow> real \<Rightarrow> nat \<Rightarrow> real option" where
  "current_layer_height_loop dflt p z i =
     (if i < length p then
        (if i + 2 = length p then rd p (i + 1)
         else (case rd p (i + 2) of
                 None \<Rightarrow> None
               | Some z2' \<Rightarrow>
                   if z2' > z then
                     do {
                       z1 \<leftarrow> rd p i;
                       h1 \<leftarrow> rd p (i + 1);
                       z2 \<leftarrow> rd p (i + 2);
                       h2 \<leftarrow> rd p (i + 3);
                       Some (lerp h1 h2 ((z - z1) / (z2 - z1)))
                     }
                   else current_layer_height_loop dflt p z (i + 2)))
      else Some dflt)"
  by pat_completeness auto
termination
  by (relation "measure (\<lambda>(dflt, p, z, i). length p - i)") auto

declare current_layer_height_loop.simps [simp del]

definition current_layer_height :: "SlicingParameters \<Rightarrow> real list \<Rightarrow> real \<Rightarrow> real option" where
  "current_layer_height sp p z = current_layer_height_loop (layer_height sp) p z 0"

text \<open>Step 2: is it possible to apply the delta? \<open>None\<close> stands for the \<open>return\<close>
  statements of this step, \<open>Some d\<close> carries the adjusted \<open>layer_thickness_delta\<close>.\<close>

definition increase_delta :: "SlicingParameters \<Rightarrow> real \<Rightarrow> real \<Rightarrow> real option" where
  "increase_delta sp layer_thickness_delta current =
     (if layer_thickness_delta > 0 then
        (if current \<ge> max_layer_height sp - EPSILON then None
         else Some (min layer_thickness_delta (max_layer_height sp - current)))
      else
        (if current \<le> min_layer_height sp + EPSILON then None
         else Some (max layer_thickness_delta (min_layer_height sp - current))))"

definition reduce_delta :: "SlicingParameters \<Rightarrow> real \<Rightarrow> real \<Rightarrow> real option" where
  "reduce_delta sp layer_thickness_delta current =
     (let d = min \<bar>layer_thickness_delta\<bar> \<bar>layer_height sp - current\<bar>
      in if d < EPSILON then None else Some d)"

fun apply_delta_possible ::
  "SlicingParameters \<Rightarrow> LayerHeightEditActionType \<Rightarrow> real \<Rightarrow> real \<Rightarrow> real option" where
  "apply_delta_possible sp LAYER_HEIGHT_EDIT_ACTION_DECREASE d current =
     increase_delta sp (- d) current"
| "apply_delta_possible sp LAYER_HEIGHT_EDIT_ACTION_INCREASE d current =
     increase_delta sp d current"
| "apply_delta_possible sp LAYER_HEIGHT_EDIT_ACTION_REDUCE d current =
     reduce_delta sp d current"
| "apply_delta_possible sp LAYER_HEIGHT_EDIT_ACTION_SMOOTH d current =
     reduce_delta sp d current"

text \<open>The loop \<open>while (idx < size() && profile[idx] < bound) idx += 2;\<close>. The read is
  guarded by the comparison with \<open>size()\<close>, which also keeps the addition from
  overflowing.\<close>

function seek :: "real list \<Rightarrow> real \<Rightarrow> nat \<Rightarrow> nat" where
  "seek p bound idx =
     (if idx < length p \<and> p ! idx < bound then seek p bound (idx + 2) else idx)"
  by pat_completeness auto
termination
  by (relation "measure (\<lambda>(p, bound, idx). length p - idx)") auto

declare seek.simps [simp del]

definition z_span_variable :: "SlicingParameters \<Rightarrow> real \<times> real" where
  "z_span_variable sp =
     (if first_object_layer_height_fixed sp then first_object_layer_height sp else 0,
      object_print_z_height sp)"

definition z_step :: real where
  "z_step = 1 / 10"

text \<open>The weight of the edit at \<open>zz\<close>, and the height adjusted by the action.\<close>

definition band_weight :: "real \<Rightarrow> real \<Rightarrow> real \<Rightarrow> real" where
  "band_weight z band_width zz =
     (if \<bar>zz - z\<bar> < 0.5 * band_width
      then 0.5 + 0.5 * cos (2 * pi * (zz - z) / band_width) else 0)"

fun adjusted_height ::
  "SlicingParameters \<Rightarrow> LayerHeightEditActionType \<Rightarrow> real \<Rightarrow> real \<Rightarrow> real \<Rightarrow> real" where
  "adjusted_height sp LAYER_HEIGHT_EDIT_ACTION_INCREASE weight d height = height + weight * d"
| "adjusted_height sp LAYER_HEIGHT_EDIT_ACTION_DECREASE weight d height = height + weight * d"
| "adjusted_height sp LAYER_HEIGHT_EDIT_ACTION_REDUCE weight d height =
     (let delta = height - layer_height sp;
          step = weight * d;
          step = (if \<bar>delta\<bar> > step then (if delta > 0 then - step else step) else - delta)
      in height + step)"
| "adjusted_height sp LAYER_HEIGHT_EDIT_ACTION_SMOOTH weight d height = height"

text \<open>The height of the old profile at \<open>zz\<close>, read at the cursor \<open>idx\<close>.\<close>

definition height_at_cursor :: "real list \<Rightarrow> nat \<Rightarrow> real \<Rightarrow> real option" where
  "height_at_cursor p idx zz =
     do {
       z1 \<leftarrow> rd p idx;
       h1 \<leftarrow> rd p (idx + 1);
       if size_add idx 2 < length p then
         do {
           z2 \<leftarrow> rd p (size_add idx 2);
           h2 \<leftarrow> rd p (size_add idx 2 + 1);
           Some (lerp h1 h2 ((zz - z1) / (z2 - z1)))
         }
       else Some h1
     }"

text \<open>Step 3, the loop \<open>while (zz < hi)\<close>. The state is \<open>(zz, idx, profile_new)\<close>;
  the result is the state the loop is left with, by its condition or by \<open>break\<close>.\<close>

function resample_loop ::
  "SlicingParameters \<Rightarrow> real list \<Rightarrow> real \<Rightarrow> real \<Rightarrow> real \<Rightarrow> LayerHeightEditActionType
    \<Rightarrow> real \<Rightarrow> real \<Rightarrow> nat \<Rightarrow> real list \<Rightarrow> (real \<times> nat \<times> real list) option" where
  "resample_loop sp p z d band_width action hi zz idx profile_new =
     (if zz < hi then
        (case height_at_cursor p idx zz of
           None \<Rightarrow> None
         | Some height0 \<Rightarrow>
            (case rd profile_new (size_sub (length profile_new) 2) of
               None \<Rightarrow> None
             | Some last_z \<Rightarrow>
                (let next = size_add idx 2;
                     weight = band_weight z band_width zz;
                     height = clamp (min_layer_height sp) (max_layer_height sp)
                                (adjusted_height sp action weight d height0)
                 in if zz = snd (z_span_variable sp) then
                      Some (zz, length p,
                            (if last_z + EPSILON > zz then butlast (butlast profile_new)
                             else profile_new) @ [zz, height])
                    else
                      resample_loop sp p z d band_width action hi
                        (min (zz + z_step) (snd (z_span_variable sp)))
                        (size_sub (seek p (min (zz + z_step) (snd (z_span_variable sp))) next) 2)
                        (if last_z + EPSILON < zz then profile_new @ [zz, height]
                         else profile_new))))
      else Some (zz, idx, profile_new))"
  by pat_completeness auto
termination
proof (relation "measure (\<lambda>(sp, p, z, d, band_width, action, hi, zz, idx, profile_new).
          if zz < snd (z_span_variable sp)
          then nat \<lceil>(snd (z_span_variable sp) - zz) * 10\<rceil> + 1
          else if zz = snd (z_span_variable sp) then 0 else 1)", goal_cases)
  case 1
  show ?case by simp
next
  case (2 sp p z d band_width action hi zz idx profile_new height0 last_z nxt weight height)
  define top where "top = snd (z_span_variable sp)"
  have ne: "zz \<noteq> top" using 2 by (simp add: top_def)
  show ?case
  proof (cases "zz < top")
    case False
    with ne have "top < zz" by simp
    then show ?thesis by (simp add: top_def [symmetric] z_step_def min_def)
  next
    case True
    show ?thesis
    proof (cases "zz + z_step < top")
      case False
      with True show ?thesis by (simp add: top_def [symmetric] min_def)
    next
      case lt: True
      have "\<lceil>(top - (zz + 1 / 10)) * 10\<rceil> = \<lceil>(top - zz) * 10\<rceil> - 1"
      proof -
        have "(top - (zz + 1 / 10)) * 10 = (top - zz) * 10 - 1" by (simp add: algebra_simps)
        then have "\<lceil>(top - (zz + 1 / 10)) * 10\<rceil> = \<lceil>(top - zz) * 10 - 1\<rceil>" by presburger
        then show ?thesis by (simp only: ceiling_diff_one)
      qed
      moreover have "\<lceil>(top - zz) * 10\<rceil> \<ge> 2"
      proof -
        have "(top - zz) * 10 > 1" using lt by (simp add: z_step_def)
        then show ?thesis by linarith
      qed
      ultimately show ?thesis using True lt
        by (simp add: top_def [symmetric] z_step_def min_def)
    qed
  qed
qed

declare resample_loop.simps [simp del]

text \<open>Lines 453 to 463: \<open>profile_new\<close> is completed by the rest of the old profile;
  \<open>idx\<close> is the cursor after \<open>idx += 2\<close>.\<close>

definition splice_suffix ::
  "SlicingParameters \<Rightarrow> real list \<Rightarrow> nat \<Rightarrow> real list \<Rightarrow> real list option" where
  "splice_suffix sp p idx profile_new =
     (if idx < length p then Some (profile_new @ drop idx p)
      else
        (case rd profile_new (size_sub (length profile_new) 2) of
           None \<Rightarrow> None
         | Some last_z \<Rightarrow>
             if last_z + 0.5 * EPSILON < snd (z_span_variable sp) then
               (if 2 \<le> length p then Some (profile_new @ drop (length p - 2) p) else None)
             else Some profile_new))"

text \<open>A checked write \<open>v[i] = x\<close>.\<close>

definition wr :: "'a list \<Rightarrow> nat \<Rightarrow> 'a \<Rightarrow> 'a list option" where
  "wr v i x = (if i < length v then Some (v[i := x]) else None)"

text \<open>The smoothing pass: the weight \<open>t\<close>, the new height at key point \<open>i\<close> computed from
  the snapshot \<open>profile_new\<close>, the loop over the resampled key points and the rounds.
  The new height is a convex combination of heights of the snapshot, written without a
  clamp. The model computes it in exact reals, where it lies between the heights it
  combines; in \<open>double\<close> the rounding of the two products and of the sum can leave it
  a unit in the last place outside them, so no property below rests on a smoothed
  height staying within the closed interval of its operands: the bounds proved have the
  slack \<open>EPSILON\<close>.\<close>

definition smooth_weight :: "real \<Rightarrow> real \<Rightarrow> real \<Rightarrow> real" where
  "smooth_weight z band_width zz =
     (if \<bar>zz - z\<bar> < 0.5 * band_width
      then 0.25 + 0.25 * cos (2 * pi * (zz - z) / band_width) else 0)"

definition smooth_point :: "real \<Rightarrow> real \<Rightarrow> real list \<Rightarrow> nat \<Rightarrow> real option" where
  "smooth_point z band_width profile_new i =
     do {
       zz \<leftarrow> rd profile_new i;
       let t = smooth_weight z band_width zz;
       if i = 0 then
         do {
           a \<leftarrow> rd profile_new (i + 1);
           b \<leftarrow> rd profile_new (i + 3);
           Some ((1 - t) * a + t * b)
         }
       else if i + 1 = length profile_new then
         do {
           a \<leftarrow> rd profile_new (i + 1);
           b \<leftarrow> rd profile_new (i - 1);
           Some ((1 - t) * a + t * b)
         }
       else
         do {
           a \<leftarrow> rd profile_new (i + 1);
           b \<leftarrow> rd profile_new (i - 1);
           c \<leftarrow> rd profile_new (i + 3);
           Some ((1 - t) * a + 0.5 * t * (b + c))
         }
     }"

function smooth_inner ::
  "real \<Rightarrow> real \<Rightarrow> real list \<Rightarrow> nat \<Rightarrow> nat \<Rightarrow> real list \<Rightarrow> real list option" where
  "smooth_inner z band_width profile_new i_resampled_end i layer_height_profile =
     (if i < i_resampled_end then
        (case smooth_point z band_width profile_new i of
           None \<Rightarrow> None
         | Some v \<Rightarrow>
            (case wr layer_height_profile (i + 1) v of
               None \<Rightarrow> None
             | Some layer_height_profile' \<Rightarrow>
                 smooth_inner z band_width profile_new i_resampled_end (i + 2)
                   layer_height_profile'))
      else Some layer_height_profile)"
  by pat_completeness auto
termination
  by (relation "measure (\<lambda>(z, band_width, profile_new, i_resampled_end, i, lhp).
        i_resampled_end - i)") auto

declare smooth_inner.simps [simp del]

fun smooth_rounds ::
  "nat \<Rightarrow> real \<Rightarrow> real \<Rightarrow> nat \<Rightarrow> nat \<Rightarrow> real list \<Rightarrow> real list option" where
  "smooth_rounds 0 z band_width i_resampled_start i_resampled_end layer_height_profile =
     Some layer_height_profile"
| "smooth_rounds (Suc n) z band_width i_resampled_start i_resampled_end layer_height_profile =
     (case smooth_inner z band_width layer_height_profile i_resampled_end i_resampled_start
             layer_height_profile of
        None \<Rightarrow> None
      | Some layer_height_profile' \<Rightarrow>
          smooth_rounds n z band_width i_resampled_start i_resampled_end layer_height_profile')"

definition smooth_pass ::
  "real \<Rightarrow> real \<Rightarrow> nat \<Rightarrow> nat \<Rightarrow> real list \<Rightarrow> real list option" where
  "smooth_pass z band_width i_resampled_start i_resampled_end layer_height_profile =
     smooth_rounds 6 z band_width
       (if i_resampled_start = 0 then 1 else i_resampled_start)
       (if i_resampled_end = length layer_height_profile
        then size_sub i_resampled_end 2 else i_resampled_end)
       layer_height_profile"

text \<open>Steps 3 to 5. The prefix \<open>[begin(), begin() + idx + 2)\<close> is copied; copying
  past the end of the vector is an out of bounds read.\<close>

definition resample_band ::
  "SlicingParameters \<Rightarrow> real list \<Rightarrow> real \<Rightarrow> real \<Rightarrow> real \<Rightarrow> LayerHeightEditActionType
    \<Rightarrow> real list option" where
  "resample_band sp p z d band_width action =
     (let lo = max (fst (z_span_variable sp)) (z - 0.5 * band_width);
          hi = z + 0.5 * band_width;
          idx = size_sub (seek p lo 0) 2
      in if size_add idx 2 > length p then None
         else
           (let profile_new = take (size_add idx 2) p;
                i_resampled_start = length profile_new
            in case resample_loop sp p z d band_width action hi lo idx profile_new of
                 None \<Rightarrow> None
               | Some (zz, idx1, profile_new1) \<Rightarrow>
                  (case splice_suffix sp p (size_add idx1 2) profile_new1 of
                     None \<Rightarrow> None
                   | Some layer_height_profile \<Rightarrow>
                       if action = LAYER_HEIGHT_EDIT_ACTION_SMOOTH
                       then smooth_pass z band_width i_resampled_start (length profile_new1)
                              layer_height_profile
                       else Some layer_height_profile)))"

text \<open>The function. The profile is passed by reference and updated in place: the model
  returns the profile the caller holds afterwards, \<open>None\<close> when a read or a write
  leaves a vector. The assertions are compiled out (\<open>SLIC3R_DEBUG\<close> is not defined).\<close>

definition adjust_layer_height_profile ::
  "SlicingParameters \<Rightarrow> real list \<Rightarrow> real \<Rightarrow> real \<Rightarrow> real \<Rightarrow> LayerHeightEditActionType
    \<Rightarrow> real list option" where
  "adjust_layer_height_profile sp layer_height_profile z layer_thickness_delta band_width action =
     (if z < fst (z_span_variable sp) \<or> z > snd (z_span_variable sp)
      then Some layer_height_profile
      else
        (case current_layer_height sp layer_height_profile z of
           None \<Rightarrow> None
         | Some current \<Rightarrow>
            (case apply_delta_possible sp action layer_thickness_delta current of
               None \<Rightarrow> Some layer_height_profile
             | Some d \<Rightarrow> resample_band sp layer_height_profile z d band_width action)))"

subsection \<open>generate_object_layers\<close>

text \<open>The inner \<open>for (;;)\<close> loop that moves the cursor to the segment of \<open>slice_z\<close>;
  the result is \<open>(idx_layer_height_profile, next)\<close>.\<close>

function advance_cursor :: "real list \<Rightarrow> real \<Rightarrow> nat \<Rightarrow> nat \<Rightarrow> nat \<times> nat" where
  "advance_cursor p slice_z idx nxt =
     (if nxt \<ge> length p \<or> slice_z < p ! nxt then (idx, nxt)
      else advance_cursor p slice_z nxt (nxt + 2))"
  by pat_completeness auto
termination
  by (relation "measure (\<lambda>(p, slice_z, idx, nxt). length p - nxt)") auto

declare advance_cursor.simps [simp del]

text \<open>The height of the next layer and the new cursor.\<close>

definition layer_height_at ::
  "SlicingParameters \<Rightarrow> real list \<Rightarrow> real \<Rightarrow> nat \<Rightarrow> (real \<times> nat) option" where
  "layer_height_at sp p slice_z idx_layer_height_profile =
     (if idx_layer_height_profile < length p then
        (case advance_cursor p slice_z idx_layer_height_profile (idx_layer_height_profile + 2) of
           (idx, nxt) \<Rightarrow>
             do {
               z1 \<leftarrow> rd p idx;
               h1 \<leftarrow> rd p (idx + 1);
               if nxt < length p then
                 do {
                   z2 \<leftarrow> rd p nxt;
                   h2 \<leftarrow> rd p (nxt + 1);
                   Some (lerp h1 h2 ((slice_z - z1) / (z2 - z1)), idx)
                 }
               else Some (h1, idx)
             })
      else Some (min_layer_height sp, idx_layer_height_profile))"

text \<open>The loop \<open>while (slice_z < object_print_z_height())\<close>. Nothing in the source bounds
  the number of its iterations, so it is a partial function: the outer \<open>None\<close> is a loop
  that never ends, the inner \<open>None\<close> a read outside the profile.\<close>

partial_function (option) generate_loop ::
  "SlicingParameters \<Rightarrow> real list \<Rightarrow> real \<Rightarrow> real \<Rightarrow> nat \<Rightarrow> real list
    \<Rightarrow> real list option option" where
  "generate_loop sp p print_z slice_z idx out =
     (if slice_z < object_print_z_height sp then
        (case layer_height_at sp p slice_z idx of
           None \<Rightarrow> Some None
         | Some (height, idx') \<Rightarrow>
             if print_z + 0.5 * height \<ge> object_print_z_height sp then Some (Some out)
             else generate_loop sp p (print_z + height)
                    (print_z + height + 0.5 * min_layer_height sp) idx'
                    (out @ [print_z, print_z + height]))
      else Some (Some out))"

declare generate_loop.simps [code]

definition generate_object_layers ::
  "SlicingParameters \<Rightarrow> real list \<Rightarrow> real list option option" where
  "generate_object_layers sp layer_height_profile =
     (let print_z = (if first_object_layer_height_fixed sp
                     then first_object_layer_height sp else 0);
          out = (if first_object_layer_height_fixed sp
                 then [0, first_object_layer_height sp] else [])
      in generate_loop sp layer_height_profile print_z
           (print_z + 0.5 * min_layer_height sp) 0 out)"

subsection \<open>layer_height_profile_adaptive\<close>

text \<open>
  \<open>SlicingAdaptive::cusp_height(z, cusp_value, current_facet)\<close> is not part of this file.
  It is a parameter: a function of the query height, the cusp value and the facet hint
  that returns the height and the updated hint. The meshes only reach the function
  through it.
\<close>

type_synonym cusp_height_oracle = "real \<Rightarrow> real \<Rightarrow> int \<Rightarrow> real \<times> int"

definition cusp_value :: real where
  "cusp_value = 0.2"

text \<open>The loop \<open>while ((slice_z - height) <= object_print_z_height())\<close>; \<open>None\<close> is a loop
  that never ends.\<close>

partial_function (option) adaptive_loop ::
  "SlicingParameters \<Rightarrow> cusp_height_oracle \<Rightarrow> real \<Rightarrow> real \<Rightarrow> int \<Rightarrow> real list
    \<Rightarrow> real list option" where
  "adaptive_loop sp cusp slice_z height current_facet p =
     (if slice_z - height \<le> object_print_z_height sp then
        (case cusp slice_z cusp_value current_facet of
           (cusp_height, current_facet') \<Rightarrow>
             adaptive_loop sp cusp (slice_z + min cusp_height 999) (min cusp_height 999)
               current_facet'
               (p @ [slice_z, min cusp_height 999,
                     slice_z + min cusp_height 999, min cusp_height 999]))
      else Some p)"

declare adaptive_loop.simps [code]

text \<open>The entries that \<open>n\<close> iterations of the loop push, starting at \<open>slice_z\<close> with the
  facet hint \<open>current_facet\<close>.\<close>

fun adaptive_segments :: "cusp_height_oracle \<Rightarrow> nat \<Rightarrow> real \<Rightarrow> int \<Rightarrow> real list" where
  "adaptive_segments cusp 0 slice_z current_facet = []"
| "adaptive_segments cusp (Suc n) slice_z current_facet =
     (case cusp slice_z cusp_value current_facet of
        (cusp_height, current_facet') \<Rightarrow>
          [slice_z, min cusp_height 999, slice_z + min cusp_height 999, min cusp_height 999]
          @ adaptive_segments cusp n (slice_z + min cusp_height 999) current_facet')"

text \<open>The vector holds at least the two entries pushed first when its entry at
  \<open>size() - 2\<close> is read.\<close>

definition layer_height_profile_adaptive ::
  "SlicingParameters \<Rightarrow> cusp_height_oracle \<Rightarrow> real list option" where
  "layer_height_profile_adaptive sp cusp =
     (case adaptive_loop sp cusp (first_object_layer_height sp) (first_object_layer_height sp) 0
             ([0, first_object_layer_height sp] @
              (if first_object_layer_height_fixed sp
               then [first_object_layer_height sp, first_object_layer_height sp] else [])) of
        None \<Rightarrow> None
      | Some p \<Rightarrow>
          Some (p @ [max (first_object_layer_height sp) (p ! (length p - 2)),
                     first_object_layer_height sp,
                     object_print_z_height sp,
                     first_object_layer_height sp]))"

subsection \<open>generate_layer_height_texture\<close>

text \<open>
  \<open>int\<close> is 32 bit and signed: an arithmetic result or a conversion from \<open>double\<close>
  outside its range is undefined behaviour, as is a division by zero; all are \<open>None\<close>.
  The texture \<open>data\<close> is a byte buffer whose size the function does not know: it is a
  map from the byte offset to the byte.

  The number of cells that the function returns is the ceiling of a product of a
  quotient of \<open>double\<close>, and a ceiling does not bear the rounding of its argument: the
  quotient \<open>2.1 / 0.15\<close> is 14 in the reals and a little more than 14 in \<open>double\<close>,
  which gives 225 cells and not 224. So the arithmetic of \<open>double\<close> that decides a number
  of cells or the cells of a layer is not computed in the reals: the height of the
  object, the divisions, and the products under a floor or a ceiling that select the
  cells go through a parameter \<open>fl\<close>, the rounding of \<open>double\<close>, which maps the exact
  result to the \<open>double\<close> that the machine returns and is \<open>None\<close> where that is an
  infinity. The fields of \<open>SlicingParameters\<close> and the entries of \<open>layers\<close> stand for
  the real numbers that the given \<open>double\<close> values are.
  A division by zero of \<open>double\<close> is no fault by itself: it gives an infinity or a NaN,
  \<open>None\<close> here, and the fault is the conversion to \<open>int\<close> in which each of them ends.
  The sums and the products of the colours are exact: they decide the bytes written,
  and an overflow of one of them leaves the range of \<open>int\<close> in the model as well.
\<close>

type_synonym rounding = "real \<Rightarrow> real option"

definition double_div :: "rounding \<Rightarrow> real \<Rightarrow> real \<Rightarrow> real option" where
  "double_div fl a b = (if b = 0 then None else fl (a / b))"

text \<open>Modelled from the spec: the accessor \<open>object_print_z_height()\<close> of Slicing.hpp
  returns \<open>object_print_z_max - object_print_z_min\<close>, a difference of two \<open>double\<close>,
  rounded.\<close>

definition object_print_z_height_double :: "rounding \<Rightarrow> SlicingParameters \<Rightarrow> real option" where
  "object_print_z_height_double fl sp = fl (object_print_z_height sp)"

definition int32 :: "int \<Rightarrow> int option" where
  "int32 x = (if - (2 ^ 31) \<le> x \<and> x < 2 ^ 31 then Some x else None)"

text \<open>The conversion \<open>int(x)\<close> of a \<open>double\<close> truncates towards zero.\<close>

definition int_of_double :: "real \<Rightarrow> int option" where
  "int_of_double x = int32 (if 0 \<le> x then \<lfloor>x\<rfloor> else \<lceil>x\<rceil>)"

text \<open>The division of two \<open>int\<close> truncates towards zero.\<close>

definition int_div :: "int \<Rightarrow> int \<Rightarrow> int option" where
  "int_div a b = (if b = 0 then None else int32 (sgn a * sgn b * (\<bar>a\<bar> div \<bar>b\<bar>)))"

text \<open>Modelled from the spec: \<open>clamp\<close> of libslic3r.h again, at type \<open>int\<close>.\<close>

definition clamp_int :: "int \<Rightarrow> int \<Rightarrow> int \<Rightarrow> int" where
  "clamp_int low high v = max low (min high v)"

definition palette_raw :: "(int \<times> int \<times> int) list" where
  "palette_raw =
     [(0x01A, 0x098, 0x050), (0x066, 0x0BD, 0x063), (0x0A6, 0x0D9, 0x06A),
      (0x0D9, 0x0F1, 0x0EB), (0x0FE, 0x0E6, 0x0EB), (0x0FD, 0x0AE, 0x061),
      (0x0F4, 0x06D, 0x043), (0x0D7, 0x030, 0x027)]"

type_synonym texture = "int \<Rightarrow> 8 word"

text \<open>The colour of a layer of height \<open>h\<close>, scaled by \<open>intensity\<close>.\<close>

definition color_channel :: "real \<Rightarrow> int option" where
  "color_channel c = map_option (clamp_int 0 255) (int_of_double (real_of_int \<lfloor>c + 0.5\<rfloor>))"

definition layer_color ::
  "rounding \<Rightarrow> SlicingParameters \<Rightarrow> real \<Rightarrow> real \<Rightarrow> real
    \<Rightarrow> (int \<times> int \<times> int) option" where
  "layer_color fl sp hscale h intensity =
     do {
       idxf \<leftarrow> double_div fl ((0.5 * hscale + (h - layer_height sp))
                              * real (length palette_raw - 1)) hscale;
       i \<leftarrow> int_of_double (real_of_int \<lfloor>idxf\<rfloor>);
       let idx1 = clamp_int 0 (int (length palette_raw - 1)) i;
       let idx2 = min (int (length palette_raw - 1)) (idx1 + 1);
       let t = idxf - real_of_int idx1;
       color1 \<leftarrow> rd palette_raw (nat idx1);
       color2 \<leftarrow> rd palette_raw (nat idx2);
       r \<leftarrow> color_channel (intensity * lerp (real_of_int (fst color1)) (real_of_int (fst color2)) t);
       g \<leftarrow> color_channel (intensity * lerp (real_of_int (fst (snd color1)))
                                            (real_of_int (fst (snd color2))) t);
       b \<leftarrow> color_channel (intensity * lerp (real_of_int (snd (snd color1)))
                                            (real_of_int (snd (snd color2))) t);
       Some (r, g, b)
     }"

text \<open>The four bytes of a cell are written at \<open>ptr\<close>; the first cell of a row is copied
  to the end of the row before.\<close>

definition write_cell ::
  "texture \<Rightarrow> int \<Rightarrow> int \<Rightarrow> int \<Rightarrow> int \<Rightarrow> int \<Rightarrow> (int \<times> int \<times> int) \<Rightarrow> texture option" where
  "write_cell data base cols cell row col color =
     do {
       rc \<leftarrow> int32 (row * cols);
       rcc \<leftarrow> int32 (rc + col);
       off \<leftarrow> int32 (rcc * 4);
       let ptr = base + off;
       let data1 = data(ptr := word_of_int (fst color),
                        ptr + 1 := word_of_int (fst (snd color)),
                        ptr + 2 := word_of_int (snd (snd color)),
                        ptr + 3 := 255);
       Some (if col = 0 \<and> row > 0
             then data1(ptr - 4 := data1 ptr, ptr - 3 := data1 (ptr + 1),
                        ptr - 2 := data1 (ptr + 2), ptr - 1 := data1 (ptr + 3))
             else data1)
     }"

text \<open>The body of the loops over the cells: \<open>intensity\<close> is \<open>Some\<close> of the arguments of
  the intensity profile for the main texture, \<open>None\<close> for the second level of detail,
  whose intensity is 1. An intensity that is not finite, after a division by a layer
  height of zero or by a scale that is not finite, ends in the conversion of the
  colour to \<open>int\<close>.\<close>

definition cell_intensity ::
  "rounding \<Rightarrow> real \<Rightarrow> (real \<times> real option) option \<Rightarrow> int \<Rightarrow> real option" where
  "cell_intensity fl h intensity cell =
     (case intensity of
        None \<Rightarrow> Some 1
      | Some (mid, cell_to_z) \<Rightarrow>
          do {
            c \<leftarrow> cell_to_z;
            a \<leftarrow> double_div fl (pi * 0.7 * (mid - c * real_of_int cell)) h;
            Some (cos a)
          })"

definition fill_cell ::
  "rounding \<Rightarrow> SlicingParameters \<Rightarrow> real \<Rightarrow> real \<Rightarrow> (real \<times> real option) option
    \<Rightarrow> int \<Rightarrow> int \<Rightarrow> int \<Rightarrow> texture \<Rightarrow> texture option" where
  "fill_cell fl sp hscale h intensity base cols cell data =
     do {
       x \<leftarrow> cell_intensity fl h intensity cell;
       color \<leftarrow> layer_color fl sp hscale h x;
       c1 \<leftarrow> int32 (cols - 1);
       row \<leftarrow> int_div cell c1;
       rc \<leftarrow> int32 (row * c1);
       col \<leftarrow> int32 (cell - rc);
       write_cell data base cols cell row col color
     }"

function fill_cells ::
  "rounding \<Rightarrow> SlicingParameters \<Rightarrow> real \<Rightarrow> real \<Rightarrow> (real \<times> real option) option
    \<Rightarrow> int \<Rightarrow> int \<Rightarrow> int \<Rightarrow> int \<Rightarrow> texture \<Rightarrow> texture option" where
  "fill_cells fl sp hscale h intensity base cols cell cell_last data =
     (if cell \<le> cell_last then
        (case fill_cell fl sp hscale h intensity base cols cell data of
           None \<Rightarrow> None
         | Some data' \<Rightarrow>
             fill_cells fl sp hscale h intensity base cols (cell + 1) cell_last data')
      else Some data)"
  by pat_completeness auto
termination
  by (relation "measure (\<lambda>(fl, sp, hscale, h, intensity, base, cols, cell, cell_last, data).
        nat (cell_last + 1 - cell))") auto

declare fill_cells.simps [simp del]

text \<open>The values computed before the loop over the layers: the numbers of cells and
  of columns of the two levels, the offset \<open>data1\<close> of the second level in the buffer,
  and the scales. A scale is a quotient of \<open>double\<close>: it is \<open>None\<close> when it is not
  finite, which is a fault only where a layer uses it.\<close>

record texture_grid =
  ncells :: int
  ncells1 :: int
  cols1 :: int
  data1 :: int
  z_to_cell :: "real option"
  cell_to_z :: "real option"
  z_to_cell1 :: "real option"
  hscale :: real

text \<open>The range of cells of a layer at one level of detail.\<close>

definition cell_range ::
  "rounding \<Rightarrow> int \<Rightarrow> real option \<Rightarrow> real \<Rightarrow> real \<Rightarrow> (int \<times> int) option" where
  "cell_range fl n scale lo hi =
     do {
       n1 \<leftarrow> int32 (n - 1);
       s \<leftarrow> scale;
       x \<leftarrow> fl (lo * s);
       a \<leftarrow> int_of_double (real_of_int \<lceil>x\<rceil>);
       y \<leftarrow> fl (hi * s);
       b \<leftarrow> int_of_double (real_of_int \<lfloor>y\<rfloor>);
       Some (clamp_int 0 n1 a, clamp_int 0 n1 b)
     }"

text \<open>The loop over the layers, two entries of \<open>layers\<close> at a time; the read of
  \<open>layers[idx_layer + 1]\<close> is out of bounds when one entry is left.\<close>

fun fill_layers ::
  "rounding \<Rightarrow> SlicingParameters \<Rightarrow> texture_grid \<Rightarrow> int \<Rightarrow> bool \<Rightarrow> real list \<Rightarrow> texture
    \<Rightarrow> texture option" where
  "fill_layers fl sp g cols lod [] data = Some data"
| "fill_layers fl sp g cols lod [lo] data = None"
| "fill_layers fl sp g cols lod (lo # hi0 # rest) data =
     do {
       let mid = 0.5 * (lo + hi0);
       let h = hi0 - lo;
       height \<leftarrow> object_print_z_height_double fl sp;
       let hi = min hi0 height;
       (cell_first, cell_last) \<leftarrow> cell_range fl (ncells g) (z_to_cell g) lo hi;
       data' \<leftarrow> fill_cells fl sp (hscale g) h (Some (mid, cell_to_z g)) 0 cols
                  cell_first cell_last data;
       data'' \<leftarrow>
         (if lod then
            do {
              (cell_first1, cell_last1) \<leftarrow> cell_range fl (ncells1 g) (z_to_cell1 g) lo hi;
              fill_cells fl sp (hscale g) h None (data1 g) (cols1 g)
                cell_first1 cell_last1 data'
            }
          else Some data');
       fill_layers fl sp g cols lod rest data''
     }"

text \<open>The number of cells is \<open>int(ceil(16. * (object_print_z_height() /
  min_layer_height)))\<close>, capped by the size of the texture: the quotient is rounded,
  the product by 16 is rounded, the ceiling of a \<open>double\<close> is exact, and the conversion
  to \<open>int\<close> is a fault when the value is not finite, as it is for a
  \<open>min_layer_height\<close> of zero or a height of the object that is not finite, or out
  of range.\<close>

definition texture_grid_of ::
  "rounding \<Rightarrow> SlicingParameters \<Rightarrow> int \<Rightarrow> int \<Rightarrow> texture_grid option" where
  "texture_grid_of fl sp rows cols =
     do {
       rc \<leftarrow> int32 (rows * cols);
       d1 \<leftarrow> int32 (rc * 4);
       c1 \<leftarrow> int32 (cols - 1);
       cr \<leftarrow> int32 (c1 * rows);
       height \<leftarrow> object_print_z_height_double fl sp;
       q \<leftarrow> double_div fl height (min_layer_height sp);
       m \<leftarrow> fl (16 * q);
       n \<leftarrow> int_of_double (real_of_int \<lceil>m\<rceil>);
       let nc = min cr n;
       nc1 \<leftarrow> int_div nc 2;
       co1 \<leftarrow> int_div cols 2;
       n1 \<leftarrow> int32 (nc - 1);
       n11 \<leftarrow> int32 (nc1 - 1);
       let hscale0 = 2 * max (max_layer_height sp - layer_height sp)
                            (layer_height sp - min_layer_height sp);
       Some \<lparr> ncells = nc, ncells1 = nc1, cols1 = co1, data1 = d1,
              z_to_cell = double_div fl (real_of_int n1) height,
              cell_to_z = double_div fl height (real_of_int n1),
              z_to_cell1 = double_div fl (real_of_int n11) height,
              hscale = (if hscale0 = 0 then layer_height sp else hscale0) \<rparr>
     }"

text \<open>The function returns the number of cells; the model returns the texture too.\<close>

definition generate_layer_height_texture ::
  "rounding \<Rightarrow> SlicingParameters \<Rightarrow> real list \<Rightarrow> texture \<Rightarrow> int \<Rightarrow> int \<Rightarrow> bool
    \<Rightarrow> (texture \<times> int) option" where
  "generate_layer_height_texture fl sp layers data rows cols level_of_detail_2nd_level =
     do {
       g \<leftarrow> texture_grid_of fl sp rows cols;
       data' \<leftarrow> fill_layers fl sp g cols level_of_detail_2nd_level layers data;
       Some (data', ncells g)
     }"

subsection \<open>Profiles, layer sequences and the parameters of the scenarios\<close>

text \<open>The Z entries and the height entries of a profile \<open>[z0, h0, z1, h1, ...]\<close>.\<close>

fun profile_zs :: "real list \<Rightarrow> real list" where
  "profile_zs (z # h # rest) = z # profile_zs rest"
| "profile_zs _ = []"

fun profile_heights :: "real list \<Rightarrow> real list" where
  "profile_heights (z # h # rest) = h # profile_heights rest"
| "profile_heights _ = []"

text \<open>The invariants of a layer height profile: an even number of entries, at least
  four; Z non-decreasing; the first Z is 0 and the last one the object height; every
  height strictly between \<open>min_layer_height - EPSILON\<close> and
  \<open>max_layer_height + EPSILON\<close>.\<close>

definition heights_within :: "SlicingParameters \<Rightarrow> real list \<Rightarrow> bool" where
  "heights_within sp p =
     list_all (\<lambda>h. min_layer_height sp - EPSILON < h \<and> h < max_layer_height sp + EPSILON)
       (profile_heights p)"

definition valid_profile :: "SlicingParameters \<Rightarrow> real list \<Rightarrow> bool" where
  "valid_profile sp p =
     (even (length p) \<and> 4 \<le> length p \<and> sorted (profile_zs p)
      \<and> p ! 0 = 0 \<and> p ! (length p - 2) = object_print_z_height sp
      \<and> heights_within sp p)"

text \<open>A layer sequence \<open>[lo0, hi0, lo1, hi1, ...]\<close> as pairs, and its tiling.\<close>

fun layer_pairs :: "real list \<Rightarrow> (real \<times> real) list" where
  "layer_pairs (lo # hi # rest) = (lo, hi) # layer_pairs rest"
| "layer_pairs _ = []"

fun abutting :: "(real \<times> real) list \<Rightarrow> bool" where
  "abutting (a # b # rest) = (snd a = fst b \<and> abutting (b # rest))"
| "abutting _ = True"


text \<open>The layers \<open>ps\<close> tile from \<open>z\<close> upwards: the first one starts at \<open>z\<close> and each
  one starts where the one before ends.\<close>

fun chain_from :: "real \<Rightarrow> (real \<times> real) list \<Rightarrow> bool" where
  "chain_from z [] = True"
| "chain_from z ((lo, hi) # rest) = (lo = z \<and> chain_from hi rest)"

text \<open>The middle of a layer is below the top of the object.\<close>

definition below_top :: "SlicingParameters \<Rightarrow> real \<times> real \<Rightarrow> bool" where
  "below_top sp l = (fst l + 0.5 * (snd l - fst l) < object_print_z_height sp)"

text \<open>Scenario S1: no raft, nominal height 0.2, first layer 0.3, object height 10.\<close>

definition params_S1 :: SlicingParameters where
  "params_S1 =
     \<lparr> layer_height = 0.2, min_layer_height = 0.1, max_layer_height = 0.3,
       first_print_layer_height = 0.3, first_object_layer_height = 0.3,
       first_object_layer_bridging = False, base_raft_layers = 0, interface_raft_layers = 0,
       object_print_z_min = 0, object_print_z_max = 10 \<rparr>"

text \<open>The same with a first layer of the nominal height, and with an object of
  height 1.1.\<close>

definition params_plain :: SlicingParameters where
  "params_plain = params_S1 \<lparr> first_print_layer_height := 0.2, first_object_layer_height := 0.2 \<rparr>"

definition params_short :: SlicingParameters where
  "params_short = params_plain \<lparr> object_print_z_max := 1.1 \<rparr>"

text \<open>Scenario S2: as S1 with an object of height 1.5.\<close>

definition params_S2 :: SlicingParameters where
  "params_S2 = params_S1 \<lparr> object_print_z_max := 1.5 \<rparr>"

text \<open>Parameters whose heights are dyadic fractions, for the texture: nominal
  height 0.25 between 0.125 and 0.5, no raft, object height 8. At the concrete inputs
  of the texture below every result that \<open>double\<close> rounds is an integer or a dyadic
  fraction of a few bits, a \<open>double\<close> already, which the rounding \<open>fl_exact\<close> returns as
  it is. The texture \<open>black\<close> holds 0 in every byte.\<close>

definition params_dyadic :: SlicingParameters where
  "params_dyadic =
     \<lparr> layer_height = 0.25, min_layer_height = 0.125, max_layer_height = 0.5,
       first_print_layer_height = 0.25, first_object_layer_height = 0.25,
       first_object_layer_bridging = False, base_raft_layers = 0, interface_raft_layers = 0,
       object_print_z_min = 0, object_print_z_max = 8 \<rparr>"

definition fl_exact :: rounding where
  "fl_exact x = Some x"

definition black :: texture where
  "black = (\<lambda>a. 0)"

text \<open>An oracle that answers with the same height at every query.\<close>

definition cusp_const :: "real \<Rightarrow> cusp_height_oracle" where
  "cusp_const h = (\<lambda>z c facet. (h, facet))"

lemmas params_defs =
  params_S1_def params_plain_def params_short_def params_S2_def
  first_object_layer_height_fixed_def has_raft_def raft_layers_def
  object_print_z_height_def z_span_variable_def EPSILON_def

section \<open>Properties\<close>

subsection \<open>Helpers\<close>

lemma lerp_same: "lerp a a t = a"
  by (simp add: lerp_def algebra_simps)

lemma convex_gt:
  fixes lo :: real
  assumes "0 \<le> t" and "t \<le> 1" and "lo < a" and "lo < b"
  shows "lo < (1 - t) * a + t * b"
proof (cases "t = 0")
  case True
  then show ?thesis using assms by simp
next
  case False
  with assms(1) have "0 < t" by simp
  then have "t * lo < t * b" using assms(4) by simp
  moreover have "(1 - t) * lo \<le> (1 - t) * a"
    using assms(2,3) by (simp add: mult_left_mono)
  moreover have "(1 - t) * lo + t * lo = lo" by (simp add: algebra_simps)
  ultimately show ?thesis by linarith
qed

lemma convex_lt:
  fixes hi :: real
  assumes "0 \<le> t" and "t \<le> 1" and "a < hi" and "b < hi"
  shows "(1 - t) * a + t * b < hi"
proof -
  have "- hi < (1 - t) * (- a) + t * (- b)"
    by (rule convex_gt) (use assms in auto)
  then show ?thesis by (simp add: algebra_simps)
qed

lemma lerp_between:
  assumes "0 \<le> t" and "t \<le> 1" and "lo < a" and "lo < b" and "a < hi" and "b < hi"
  shows "lo < lerp a b t \<and> lerp a b t < hi"
  unfolding lerp_def using convex_gt [OF assms(1-4)] convex_lt [OF assms(1,2,5,6)] by simp

lemma profile_heights_append:
  "even (length a) \<Longrightarrow> profile_heights (a @ b) = profile_heights a @ profile_heights b"
  by (induction a rule: profile_heights.induct) auto

lemma profile_zs_append:
  "even (length a) \<Longrightarrow> profile_zs (a @ b) = profile_zs a @ profile_zs b"
  by (induction a rule: profile_zs.induct) auto

lemma layer_pairs_append:
  "even (length a) \<Longrightarrow> layer_pairs (a @ b) = layer_pairs a @ layer_pairs b"
  by (induction a rule: layer_pairs.induct) auto

subsection \<open>layer_height_profile_from_ranges\<close>

text \<open>
  C8. Scenario S1 says that for object height 10, first layer height 0.3, nominal height
  0.2 and no raft the profile built from an empty set of ranges is \<open>[0, 0.2, 10, 0.2]\<close>.
  It is not: the first layer height differs from the nominal one, so the first
  object layer is fixed and is inserted as a range of its own.
\<close>

theorem from_ranges_S1_counterexample:
  "object_print_z_height params_S1 = 10 \<and> first_print_layer_height params_S1 = 0.3
   \<and> layer_height params_S1 = 0.2 \<and> min_layer_height params_S1 = 0.1
   \<and> max_layer_height params_S1 = 0.3 \<and> \<not> has_raft params_S1
   \<and> layer_height_profile_from_ranges params_S1 [] \<noteq> [0, 0.2, 10, 0.2]"
  by (simp add: layer_height_profile_from_ranges_def ranges_non_overlapping_def
        profile_last_z_def params_defs Let_def)

text \<open>
  C8, as the code has it: for these parameters the profile built from an empty set of
  ranges is the plateau of the fixed first layer followed by the nominal height up to
  the top, \<open>[0, 0.3, 0.3, 0.3, 0.3, 0.2, 10, 0.2]\<close>.
\<close>

theorem from_ranges_S1:
  assumes "object_print_z_height sp = 10"
    and "first_print_layer_height sp = 0.3"
    and "first_object_layer_height sp = 0.3"
    and "layer_height sp = 0.2"
    and "\<not> has_raft sp"
  shows "layer_height_profile_from_ranges sp [] = [0, 0.3, 0.3, 0.3, 0.3, 0.2, 10, 0.2]"
  using assms
  by (simp add: layer_height_profile_from_ranges_def ranges_non_overlapping_def
        first_object_layer_height_fixed_def profile_last_z_def EPSILON_def Let_def)

theorem from_ranges_S1_witness:
  "object_print_z_height params_S1 = 10 \<and> first_print_layer_height params_S1 = 0.3
   \<and> first_object_layer_height params_S1 = 0.3 \<and> layer_height params_S1 = 0.2
   \<and> \<not> has_raft params_S1
   \<and> layer_height_profile_from_ranges params_S1 [] = [0, 0.3, 0.3, 0.3, 0.3, 0.2, 10, 0.2]"
proof -
  have h: "object_print_z_height params_S1 = 10" "first_print_layer_height params_S1 = 0.3"
    "first_object_layer_height params_S1 = 0.3" "layer_height params_S1 = 0.2"
    "\<not> has_raft params_S1"
    by (simp_all add: params_defs)
  from from_ranges_S1 [OF h] h show ?thesis by simp
qed

text \<open>
  C6. Scenario S4: with nominal height 0.2, no fixed first layer and an object at least 5
  high, the ranges \<open>(1, 3, 0.1)\<close> and \<open>(2, 4, 0.25)\<close> are trimmed to \<open>(1, 3, 0.1)\<close> and
  \<open>(3, 4, 0.25)\<close>; the profile returned is exactly the nominal height up to z = 1, the
  plateau 0.1 from 1 to 3, the plateau 0.25 from 3 to 4 and the nominal height from 4 to
  the top of the object; interpolated as \<open>adjust_layer_height_profile\<close> does it, it
  gives 0.1, 0.1, 0.25 and the nominal 0.2 at z = 1.5, 2.5, 3.5 and 4.5.
\<close>

theorem from_ranges_S4:
  assumes "layer_height sp = 0.2"
    and "\<not> first_object_layer_height_fixed sp"
    and "5 \<le> object_print_z_height sp"
  shows "ranges_non_overlapping sp [((1, 3), 0.1), ((2, 4), 0.25)]
           = [((1, 3), 0.1), ((3, 4), 0.25)]
       \<and> layer_height_profile_from_ranges sp [((1, 3), 0.1), ((2, 4), 0.25)]
           = [0, 0.2, 1, 0.2, 1, 0.1, 3, 0.1, 3, 0.25, 4, 0.25,
              4, 0.2, object_print_z_height sp, 0.2]
       \<and> current_layer_height sp
           (layer_height_profile_from_ranges sp [((1, 3), 0.1), ((2, 4), 0.25)]) 1.5 = Some 0.1
       \<and> current_layer_height sp
           (layer_height_profile_from_ranges sp [((1, 3), 0.1), ((2, 4), 0.25)]) 2.5 = Some 0.1
       \<and> current_layer_height sp
           (layer_height_profile_from_ranges sp [((1, 3), 0.1), ((2, 4), 0.25)]) 3.5 = Some 0.25
       \<and> current_layer_height sp
           (layer_height_profile_from_ranges sp [((1, 3), 0.1), ((2, 4), 0.25)]) 4.5 = Some 0.2"
proof -
  have r: "ranges_non_overlapping sp [((1, 3), 0.1), ((2, 4), 0.25)]
             = [((1, 3), 0.1), ((3, 4), 0.25)]"
    using assms by (simp add: ranges_non_overlapping_def EPSILON_def)
  have p: "layer_height_profile_from_ranges sp [((1, 3), 0.1), ((2, 4), 0.25)]
             = [0, 0.2, 1, 0.2, 1, 0.1, 3, 0.1, 3, 0.25, 4, 0.25,
                4, 0.2, object_print_z_height sp, 0.2]"
    unfolding layer_height_profile_from_ranges_def r
    using assms by (simp add: profile_last_z_def EPSILON_def Let_def)
  show ?thesis
    unfolding r p
    using assms
    by (simp add: current_layer_height_def current_layer_height_loop.simps rd_def lerp_same)
qed

theorem from_ranges_S4_witness:
  "layer_height params_plain = 0.2 \<and> \<not> first_object_layer_height_fixed params_plain
   \<and> 5 \<le> object_print_z_height params_plain
   \<and> ranges_non_overlapping params_plain [((1, 3), 0.1), ((2, 4), 0.25)]
       = [((1, 3), 0.1), ((3, 4), 0.25)]
   \<and> layer_height_profile_from_ranges params_plain [((1, 3), 0.1), ((2, 4), 0.25)]
       = [0, 0.2, 1, 0.2, 1, 0.1, 3, 0.1, 3, 0.25, 4, 0.25, 4, 0.2, 10, 0.2]
   \<and> current_layer_height params_plain
       (layer_height_profile_from_ranges params_plain [((1, 3), 0.1), ((2, 4), 0.25)]) 3.5
       = Some 0.25"
proof -
  have h: "layer_height params_plain = 0.2" "\<not> first_object_layer_height_fixed params_plain"
    "5 \<le> object_print_z_height params_plain"
    by (simp_all add: params_defs)
  have top: "object_print_z_height params_plain = 10"
    by (simp add: params_defs)
  note t = from_ranges_S4 [OF h]
  from t have a: "ranges_non_overlapping params_plain [((1, 3), 0.1), ((2, 4), 0.25)]
       = [((1, 3), 0.1), ((3, 4), 0.25)]"
    by (rule conjunct1)
  from t have "layer_height_profile_from_ranges params_plain [((1, 3), 0.1), ((2, 4), 0.25)]
       = [0, 0.2, 1, 0.2, 1, 0.1, 3, 0.1, 3, 0.25, 4, 0.25,
          4, 0.2, object_print_z_height params_plain, 0.2]"
    by (rule conjunct1 [OF conjunct2])
  with top have b: "layer_height_profile_from_ranges params_plain [((1, 3), 0.1), ((2, 4), 0.25)]
       = [0, 0.2, 1, 0.2, 1, 0.1, 3, 0.1, 3, 0.25, 4, 0.25, 4, 0.2, 10, 0.2]"
    by simp
  from t have c: "current_layer_height params_plain
       (layer_height_profile_from_ranges params_plain [((1, 3), 0.1), ((2, 4), 0.25)]) 3.5
       = Some 0.25"
    by blast
  from a b c h show ?thesis by blast
qed

subsection \<open>layer_height_profile_adaptive\<close>

text \<open>What the loop returns is the profile it started with, followed by the entries of
  some number of iterations.\<close>

lemma adaptive_loop_segments:
  assumes "adaptive_loop sp cusp slice_z height current_facet p = Some p'"
  shows "\<exists>n. p' = p @ adaptive_segments cusp n slice_z current_facet"
proof (rule adaptive_loop.raw_induct
    [where P = "\<lambda>sp cusp slice_z height current_facet p p'.
                  \<exists>n. p' = p @ adaptive_segments cusp n slice_z current_facet", OF _ assms])
  fix f :: "SlicingParameters \<Rightarrow> cusp_height_oracle \<Rightarrow> real \<Rightarrow> real \<Rightarrow> int \<Rightarrow> real list
              \<Rightarrow> real list option"
    and sp cusp slice_z height current_facet p p'
  assume IH: "\<And>sp cusp slice_z height current_facet p p'.
      f sp cusp slice_z height current_facet p = Some p'
      \<Longrightarrow> \<exists>n. p' = p @ adaptive_segments cusp n slice_z current_facet"
  assume eq: "(if slice_z - height \<le> object_print_z_height sp
        then case cusp slice_z cusp_value current_facet of
               (cusp_height, current_facet') \<Rightarrow>
                 f sp cusp (slice_z + min cusp_height 999) (min cusp_height 999) current_facet'
                   (p @ [slice_z, min cusp_height 999, slice_z + min cusp_height 999,
                         min cusp_height 999])
        else Some p) = Some p'"
  show "\<exists>n. p' = p @ adaptive_segments cusp n slice_z current_facet"
  proof (cases "slice_z - height \<le> object_print_z_height sp")
    case False
    with eq have "p' = p @ adaptive_segments cusp 0 slice_z current_facet" by simp
    then show ?thesis by blast
  next
    case True
    obtain c g where cf: "cusp slice_z cusp_value current_facet = (c, g)" by force
    with True eq have "f sp cusp (slice_z + min c 999) (min c 999) g
        (p @ [slice_z, min c 999, slice_z + min c 999, min c 999]) = Some p'" by simp
    from IH [OF this] obtain n where
      "p' = (p @ [slice_z, min c 999, slice_z + min c 999, min c 999])
              @ adaptive_segments cusp n (slice_z + min c 999) g" by blast
    then have "p' = p @ adaptive_segments cusp (Suc n) slice_z current_facet"
      by (simp add: cf)
    then show ?thesis by blast
  qed
qed

lemma adaptive_segments_length: "length (adaptive_segments cusp n slice_z f) = 4 * n"
  by (induction n arbitrary: slice_z f) (auto split: prod.splits)

lemma adaptive_segments_heights:
  "list_all (\<lambda>h. \<exists>z f. h = min (fst (cusp z cusp_value f)) 999)
     (profile_heights (adaptive_segments cusp n slice_z facet))"
proof (induction n arbitrary: slice_z facet)
  case 0
  then show ?case by simp
next
  case (Suc n)
  obtain c f where cf: "cusp slice_z cusp_value facet = (c, f)" by force
  have "c = fst (cusp slice_z cusp_value facet)" by (simp add: cf)
  then have "\<exists>z f. min c 999 = min (fst (cusp z cusp_value f)) 999" by blast
  with Suc [of "slice_z + min c 999" f] show ?case by (simp add: cf)
qed

text \<open>The loop ends when the answers of the oracle are bounded from below by a
  positive height: one more iteration is run once \<open>slice_z\<close> is above the object.\<close>

lemma adaptive_loop_above:
  assumes "object_print_z_height sp < slice_z"
  shows "\<exists>p'. adaptive_loop sp cusp slice_z height facet p = Some p'"
proof (cases "slice_z - height \<le> object_print_z_height sp")
  case False
  then show ?thesis by (subst adaptive_loop.simps) simp
next
  case True
  obtain c f where cf: "cusp slice_z cusp_value facet = (c, f)" by force
  have "adaptive_loop sp cusp (slice_z + min c 999) (min c 999) f
          (p @ [slice_z, min c 999, slice_z + min c 999, min c 999])
        = Some (p @ [slice_z, min c 999, slice_z + min c 999, min c 999])"
    using assms by (subst adaptive_loop.simps) simp
  with True cf show ?thesis by (subst adaptive_loop.simps) simp
qed

lemma adaptive_loop_steps:
  assumes "0 < c" and "\<forall>z f. c \<le> fst (cusp z cusp_value f)"
  shows "object_print_z_height sp - slice_z < real n * min c 999
         \<Longrightarrow> \<exists>p'. adaptive_loop sp cusp slice_z height facet p = Some p'"
proof (induction n arbitrary: slice_z height facet p)
  case 0
  then show ?case using adaptive_loop_above [of sp slice_z] by simp
next
  case (Suc n)
  show ?case
  proof (cases "slice_z - height \<le> object_print_z_height sp")
    case False
    then show ?thesis by (subst adaptive_loop.simps) simp
  next
    case True
    obtain h f where hf: "cusp slice_z cusp_value facet = (h, f)" by force
    have "c \<le> h" using assms(2) [rule_format, of slice_z facet] by (simp add: hf)
    then have "min c 999 \<le> min h 999" by simp
    with Suc.prems have "object_print_z_height sp - (slice_z + min h 999) < real n * min c 999"
      by (simp add: algebra_simps)
    from Suc.IH [OF this] True hf show ?thesis by (subst adaptive_loop.simps) simp
  qed
qed

lemma adaptive_loop_terminates:
  assumes "0 < c" and "\<forall>z f. c \<le> fst (cusp z cusp_value f)"
  shows "\<exists>p'. adaptive_loop sp cusp slice_z height facet p = Some p'"
proof -
  have "0 < min c 999" using assms(1) by simp
  then obtain n where "object_print_z_height sp - slice_z < real n * min c 999"
    using reals_Archimedean3 by blast
  from adaptive_loop_steps [where cusp = cusp and c = c, OF assms this] show ?thesis .
qed

text \<open>
  C4. The specification says that each height the main loop appends is the answer of
  the oracle clamped into \<open>[min_layer_height, max_layer_height]\<close>. It is not: with
  \<open>max_layer_height = 0.3\<close> and an oracle that answers 0.5 the loop appends 0.5, while
  the clamped answer is 0.3.
\<close>

theorem adaptive_loop_clamp_counterexample:
  "adaptive_loop params_short (cusp_const 0.5) 0.2 0.2 0 [0, 0.2]
     = Some ([0, 0.2] @ [0.2, 0.5, 0.7, 0.5, 0.7, 0.5, 1.2, 0.5, 1.2, 0.5, 1.7, 0.5])
   \<and> fst (cusp_const 0.5 0.2 cusp_value 0) = 0.5
   \<and> clamp (min_layer_height params_short) (max_layer_height params_short) 0.5 = 0.3
   \<and> clamp (min_layer_height params_short) (max_layer_height params_short) 0.5 \<noteq> 0.5"
  by (simp add: adaptive_loop.simps params_defs cusp_const_def cusp_value_def clamp_def)

text \<open>
  C4, as the code has it: when the loop ends, it has appended the entries
  \<open>[slice_z, h, slice_z + h, h]\<close> of some number of iterations, where each \<open>h\<close> is the answer
  of the oracle at that \<open>slice_z\<close> capped at 999 (\<open>std::min(cusp_height, 999)\<close>); the
  bounds \<open>min_layer_height\<close> and \<open>max_layer_height\<close> are not applied.
\<close>

theorem adaptive_loop_heights:
  assumes "adaptive_loop sp cusp slice_z height current_facet p = Some p'"
  shows "\<exists>n. p' = p @ adaptive_segments cusp n slice_z current_facet
           \<and> list_all (\<lambda>h. \<exists>z f. h = min (fst (cusp z cusp_value f)) 999)
                (profile_heights (adaptive_segments cusp n slice_z current_facet))"
  using adaptive_loop_segments [OF assms] adaptive_segments_heights by blast

theorem adaptive_loop_heights_witness:
  "adaptive_loop params_short (cusp_const 0.5) 0.2 0.2 0 [0, 0.2]
     = Some [0, 0.2, 0.2, 0.5, 0.7, 0.5, 0.7, 0.5, 1.2, 0.5, 1.2, 0.5, 1.7, 0.5]
   \<and> (\<exists>n. [0, 0.2, 0.2, 0.5, 0.7, 0.5, 0.7, 0.5, 1.2, 0.5, 1.2, 0.5, 1.7, 0.5]
            = [0, 0.2] @ adaptive_segments (cusp_const 0.5) n 0.2 0
          \<and> list_all (\<lambda>h. \<exists>z f. h = min (fst (cusp_const 0.5 z cusp_value f)) 999)
               (profile_heights (adaptive_segments (cusp_const 0.5) n 0.2 0)))"
proof -
  have r: "adaptive_loop params_short (cusp_const 0.5) 0.2 0.2 0 [0, 0.2]
     = Some [0, 0.2, 0.2, 0.5, 0.7, 0.5, 0.7, 0.5, 1.2, 0.5, 1.2, 0.5, 1.7, 0.5]"
    by (simp add: adaptive_loop.simps params_defs cusp_const_def cusp_value_def)
  from adaptive_loop_heights [OF r] r show ?thesis by blast
qed

text \<open>
  C1. The specification says that for every oracle the adaptive profile has
  non-decreasing Z entries, ends at the object height and has every height within
  \<open>[min_layer_height - EPSILON, max_layer_height + EPSILON]\<close>. For an object of height
  1.1 and an oracle that answers 0.5 the Z entries of the profile returned go back
  from 1.7 to 1.1, and the height 0.5 is above \<open>max_layer_height + EPSILON\<close>.
\<close>

theorem adaptive_profile_counterexample:
  "0 < object_print_z_height params_short
   \<and> layer_height_profile_adaptive params_short (cusp_const 0.5)
       = Some [0, 0.2, 0.2, 0.5, 0.7, 0.5, 0.7, 0.5, 1.2, 0.5, 1.2, 0.5, 1.7, 0.5,
               1.7, 0.2, 1.1, 0.2]
   \<and> profile_zs [0, 0.2, 0.2, 0.5, 0.7, 0.5, 0.7, 0.5, 1.2, 0.5, 1.2, 0.5, 1.7, 0.5,
               1.7, 0.2, 1.1, 0.2]
       = [0, 0.2, 0.7, 0.7, 1.2, 1.2, 1.7, 1.7, 1.1]
   \<and> \<not> sorted [0, 0.2, 0.7, 0.7, 1.2, 1.2, 1.7, 1.7, 1.1 :: real]
   \<and> profile_heights [0, 0.2, 0.2, 0.5, 0.7, 0.5, 0.7, 0.5, 1.2, 0.5, 1.2, 0.5, 1.7, 0.5,
               1.7, 0.2, 1.1, 0.2]
       = [0.2, 0.5, 0.5, 0.5, 0.5, 0.5, 0.5, 0.2, 0.2]
   \<and> max_layer_height params_short + EPSILON < 0.5"
proof -
  have "layer_height_profile_adaptive params_short (cusp_const 0.5)
       = Some [0, 0.2, 0.2, 0.5, 0.7, 0.5, 0.7, 0.5, 1.2, 0.5, 1.2, 0.5, 1.7, 0.5,
               1.7, 0.2, 1.1, 0.2]"
    by (simp add: layer_height_profile_adaptive_def adaptive_loop.simps params_defs
          cusp_const_def cusp_value_def)
  moreover have "\<not> sorted [0, 0.2, 0.7, 0.7, 1.2, 1.2, 1.7, 1.7, 1.1 :: real]"
    by (simp del: sorted_wrt.simps sorted_simps add: sorted2)
  moreover have "0 < object_print_z_height params_short"
    "max_layer_height params_short + EPSILON < 0.5"
    by (simp_all add: params_defs)
  ultimately show ?thesis by simp
qed

text \<open>
  C1, as the code has it: whenever \<open>layer_height_profile_adaptive\<close> returns, the profile
  has an even number of entries, starts at Z = 0, its last Z is exactly the object
  height, and every height is \<open>first_object_layer_height\<close> or an answer of the oracle
  capped at 999; so the heights are within
  \<open>[min_layer_height - EPSILON, max_layer_height + EPSILON]\<close> when
  \<open>first_object_layer_height\<close> and the answers of the oracle are. The function returns
  when the answers of the oracle are bounded from below by a positive height. Nothing
  is said about the order of the Z entries.
\<close>

theorem adaptive_profile:
  "(\<forall>p. layer_height_profile_adaptive sp cusp = Some p \<longrightarrow>
      even (length p) \<and> 6 \<le> length p \<and> p ! 0 = 0
      \<and> p ! (length p - 2) = object_print_z_height sp
      \<and> list_all (\<lambda>h. h = first_object_layer_height sp
                      \<or> (\<exists>z f. h = min (fst (cusp z cusp_value f)) 999))
           (profile_heights p)
      \<and> (min_layer_height sp - EPSILON \<le> 999
           \<and> min_layer_height sp - EPSILON \<le> first_object_layer_height sp
           \<and> first_object_layer_height sp \<le> max_layer_height sp + EPSILON
           \<and> (\<forall>z f. min_layer_height sp - EPSILON \<le> fst (cusp z cusp_value f)
                    \<and> fst (cusp z cusp_value f) \<le> max_layer_height sp + EPSILON)
          \<longrightarrow> list_all (\<lambda>h. min_layer_height sp - EPSILON \<le> h
                             \<and> h \<le> max_layer_height sp + EPSILON)
                (profile_heights p)))
   \<and> (0 < c \<and> (\<forall>z f. c \<le> fst (cusp z cusp_value f))
        \<longrightarrow> (\<exists>p. layer_height_profile_adaptive sp cusp = Some p))"
proof (intro conjI allI impI)
  fix p
  assume a: "layer_height_profile_adaptive sp cusp = Some p"
  define fh where "fh = first_object_layer_height sp"
  define p0 where "p0 = [0, fh] @ (if first_object_layer_height_fixed sp then [fh, fh] else [])"
  from a obtain q where q: "adaptive_loop sp cusp fh fh 0 p0 = Some q"
    and p: "p = q @ [max fh (q ! (length q - 2)), fh, object_print_z_height sp, fh]"
    unfolding layer_height_profile_adaptive_def fh_def p0_def by (auto split: option.splits)
  from adaptive_loop_segments [OF q] obtain n where n: "q = p0 @ adaptive_segments cusp n fh 0"
    by blast
  have e0: "even (length p0)" by (simp add: p0_def)
  have eq: "even (length q)" using e0 by (simp add: n adaptive_segments_length)
  have l0: "2 \<le> length p0" by (simp add: p0_def)
  then have lq: "2 \<le> length q" by (simp add: n)
  show "even (length p)" using eq by (simp add: p)
  show "6 \<le> length p" using lq by (simp add: p)
  have "p ! 0 = p0 ! 0" using l0 by (auto simp add: p n nth_append)
  then show "p ! 0 = 0" by (simp add: p0_def)
  have "length p - 2 = length q + 2" by (simp add: p)
  then show "p ! (length p - 2) = object_print_z_height sp"
    by (simp add: p nth_append)
  have h0: "list_all (\<lambda>h. h = fh \<or> (\<exists>z f. h = min (fst (cusp z cusp_value f)) 999))
              (profile_heights p0)"
    by (simp add: p0_def)
  have h1: "list_all (\<lambda>h. h = fh \<or> (\<exists>z f. h = min (fst (cusp z cusp_value f)) 999))
              (profile_heights (adaptive_segments cusp n fh 0))"
    using adaptive_segments_heights [of cusp n fh 0] by (simp add: list_all_iff)
  have hs: "profile_heights p = profile_heights p0
            @ profile_heights (adaptive_segments cusp n fh 0) @ [fh, fh]"
    using e0 eq unfolding p n by (simp add: profile_heights_append adaptive_segments_length)
  show all: "list_all (\<lambda>h. h = first_object_layer_height sp
                      \<or> (\<exists>z f. h = min (fst (cusp z cusp_value f)) 999))
           (profile_heights p)"
    using h0 h1 by (simp add: hs fh_def)
  assume b: "min_layer_height sp - EPSILON \<le> 999
           \<and> min_layer_height sp - EPSILON \<le> first_object_layer_height sp
           \<and> first_object_layer_height sp \<le> max_layer_height sp + EPSILON
           \<and> (\<forall>z f. min_layer_height sp - EPSILON \<le> fst (cusp z cusp_value f)
                    \<and> fst (cusp z cusp_value f) \<le> max_layer_height sp + EPSILON)"
  show "list_all (\<lambda>h. min_layer_height sp - EPSILON \<le> h
                             \<and> h \<le> max_layer_height sp + EPSILON) (profile_heights p)"
    unfolding list_all_iff
  proof
    fix h
    assume "h \<in> set (profile_heights p)"
    with all have "h = first_object_layer_height sp
        \<or> (\<exists>z f. h = min (fst (cusp z cusp_value f)) 999)"
      by (simp add: list_all_iff)
    then show "min_layer_height sp - EPSILON \<le> h \<and> h \<le> max_layer_height sp + EPSILON"
    proof
      assume "h = first_object_layer_height sp"
      with b show ?thesis by simp
    next
      assume "\<exists>z f. h = min (fst (cusp z cusp_value f)) 999"
      then obtain z f where h: "h = min (fst (cusp z cusp_value f)) 999" by blast
      from b have "min_layer_height sp - EPSILON \<le> fst (cusp z cusp_value f)"
        and "fst (cusp z cusp_value f) \<le> max_layer_height sp + EPSILON"
        and "min_layer_height sp - EPSILON \<le> 999" by simp_all
      then show ?thesis unfolding h by (simp add: min_def)
    qed
  qed
next
  assume "0 < c \<and> (\<forall>z f. c \<le> fst (cusp z cusp_value f))"
  then have c: "0 < c" "\<forall>z f. c \<le> fst (cusp z cusp_value f)" by auto
  from adaptive_loop_terminates [where cusp = cusp and c = c, OF c]
  obtain q where "adaptive_loop sp cusp (first_object_layer_height sp)
      (first_object_layer_height sp) 0
      ([0, first_object_layer_height sp] @
         (if first_object_layer_height_fixed sp
          then [first_object_layer_height sp, first_object_layer_height sp] else [])) = Some q"
    by blast
  then show "\<exists>p. layer_height_profile_adaptive sp cusp = Some p"
    unfolding layer_height_profile_adaptive_def by simp
qed

theorem adaptive_profile_witness:
  "(0 < (0.2::real) \<and> (\<forall>z f. 0.2 \<le> fst (cusp_const 0.2 z cusp_value f)))
   \<and> (\<exists>p. layer_height_profile_adaptive params_short (cusp_const 0.2) = Some p
        \<and> p ! 0 = 0 \<and> p ! (length p - 2) = 1.1
        \<and> list_all (\<lambda>h. min_layer_height params_short - EPSILON \<le> h
                         \<and> h \<le> max_layer_height params_short + EPSILON)
            (profile_heights p))"
proof -
  have c: "0 < (0.2::real) \<and> (\<forall>z f. 0.2 \<le> fst (cusp_const 0.2 z cusp_value f))"
    by (simp add: cusp_const_def)
  have b: "min_layer_height params_short - EPSILON \<le> 999
           \<and> min_layer_height params_short - EPSILON \<le> first_object_layer_height params_short
           \<and> first_object_layer_height params_short \<le> max_layer_height params_short + EPSILON
           \<and> (\<forall>z f. min_layer_height params_short - EPSILON
                      \<le> fst (cusp_const 0.2 z cusp_value f)
                    \<and> fst (cusp_const 0.2 z cusp_value f)
                      \<le> max_layer_height params_short + EPSILON)"
    by (simp add: cusp_const_def params_defs)
  have h: "object_print_z_height params_short = 1.1" by (simp add: params_defs)
  note t = adaptive_profile [of params_short "cusp_const 0.2" "0.2"]
  from t c obtain p where p: "layer_height_profile_adaptive params_short (cusp_const 0.2) = Some p"
    by blast
  with t b h have "p ! 0 = 0 \<and> p ! (length p - 2) = 1.1
        \<and> list_all (\<lambda>h. min_layer_height params_short - EPSILON \<le> h
                         \<and> h \<le> max_layer_height params_short + EPSILON)
            (profile_heights p)"
    by metis
  with c p show ?thesis by blast
qed

subsection \<open>adjust_layer_height_profile: the paths that leave the profile alone\<close>

text \<open>Step 1 reads inside a profile with an even number of entries.\<close>

lemma current_layer_height_loop_even:
  "even (length p) \<Longrightarrow> even i \<Longrightarrow> \<exists>c. current_layer_height_loop dflt p z i = Some c"
proof (induction dflt p z i rule: current_layer_height_loop.induct)
  case (1 dflt p z i)
  show ?case
  proof (cases "i < length p")
    case False
    then show ?thesis by (subst current_layer_height_loop.simps) simp
  next
    case True
    show ?thesis
    proof (cases "i + 2 = length p")
      case True
      then show ?thesis by (subst current_layer_height_loop.simps) (simp add: rd_def)
    next
      case False
      with True 1(2,3) have lt: "i + 3 < length p" by presburger
      then show ?thesis using 1 True False
        by (subst current_layer_height_loop.simps) (auto simp add: rd_def)
    qed
  qed
qed

text \<open>
  C7. The profile is returned as it was when \<open>z\<close> is outside the variable window; and,
  for a valid profile, step 1 finds the current height at \<open>z\<close>, and when the action is
  Reduce or Smooth and the smaller of \<open>\<bar>delta\<bar>\<close> and \<open>\<bar>nominal - current\<bar>\<close> is below
  \<open>EPSILON\<close> the profile is returned as it was.
\<close>

theorem adjust_noop:
  "(z < fst (z_span_variable sp) \<or> z > snd (z_span_variable sp)
      \<longrightarrow> adjust_layer_height_profile sp p z d band_width action = Some p)
   \<and> (valid_profile sp p \<longrightarrow>
        (\<exists>current. current_layer_height sp p z = Some current
          \<and> ((action = LAYER_HEIGHT_EDIT_ACTION_REDUCE \<or> action = LAYER_HEIGHT_EDIT_ACTION_SMOOTH)
               \<and> min \<bar>d\<bar> \<bar>layer_height sp - current\<bar> < EPSILON
              \<longrightarrow> adjust_layer_height_profile sp p z d band_width action = Some p)))"
proof (intro conjI impI)
  assume "z < fst (z_span_variable sp) \<or> z > snd (z_span_variable sp)"
  then show "adjust_layer_height_profile sp p z d band_width action = Some p"
    by (auto simp: adjust_layer_height_profile_def)
next
  assume "valid_profile sp p"
  then have "even (length p)" by (simp add: valid_profile_def)
  then obtain c where c: "current_layer_height sp p z = Some c"
    unfolding current_layer_height_def using current_layer_height_loop_even [of p 0] by auto
  have "adjust_layer_height_profile sp p z d band_width action = Some p"
    if "action = LAYER_HEIGHT_EDIT_ACTION_REDUCE \<or> action = LAYER_HEIGHT_EDIT_ACTION_SMOOTH"
      and "min \<bar>d\<bar> \<bar>layer_height sp - c\<bar> < EPSILON"
    using that c by (auto simp: adjust_layer_height_profile_def reduce_delta_def)
  with c show "\<exists>current. current_layer_height sp p z = Some current
          \<and> ((action = LAYER_HEIGHT_EDIT_ACTION_REDUCE \<or> action = LAYER_HEIGHT_EDIT_ACTION_SMOOTH)
               \<and> min \<bar>d\<bar> \<bar>layer_height sp - current\<bar> < EPSILON
              \<longrightarrow> adjust_layer_height_profile sp p z d band_width action = Some p)"
    by blast
qed

theorem adjust_noop_witness:
  "valid_profile params_plain [0, 0.2, 10, 0.2]
   \<and> 11 > snd (z_span_variable params_plain)
   \<and> adjust_layer_height_profile params_plain [0, 0.2, 10, 0.2] 11 0.05 2
        LAYER_HEIGHT_EDIT_ACTION_INCREASE = Some [0, 0.2, 10, 0.2]
   \<and> current_layer_height params_plain [0, 0.2, 10, 0.2] 5 = Some 0.2
   \<and> min \<bar>0.05\<bar> \<bar>layer_height params_plain - 0.2\<bar> < EPSILON
   \<and> adjust_layer_height_profile params_plain [0, 0.2, 10, 0.2] 5 0.05 2
        LAYER_HEIGHT_EDIT_ACTION_SMOOTH = Some [0, 0.2, 10, 0.2]"
proof -
  have v: "valid_profile params_plain [0, 0.2, 10, 0.2]"
    by (simp add: valid_profile_def heights_within_def params_defs)
  have c: "current_layer_height params_plain [0, 0.2, 10, 0.2] 5 = Some 0.2"
    by (simp add: current_layer_height_def current_layer_height_loop.simps rd_def lerp_same)
  have o: "11 > snd (z_span_variable params_plain)" by (simp add: params_defs)
  have m: "min \<bar>0.05\<bar> \<bar>layer_height params_plain - 0.2\<bar> < EPSILON" by (simp add: params_defs)
  from adjust_noop [of 11 params_plain "[0, 0.2, 10, 0.2]" "0.05" 2
      LAYER_HEIGHT_EDIT_ACTION_INCREASE] o
  have 1: "adjust_layer_height_profile params_plain [0, 0.2, 10, 0.2] 11 0.05 2
        LAYER_HEIGHT_EDIT_ACTION_INCREASE = Some [0, 0.2, 10, 0.2]" by blast
  from adjust_noop [of 5 params_plain "[0, 0.2, 10, 0.2]" "0.05" 2
      LAYER_HEIGHT_EDIT_ACTION_SMOOTH] v c m
  have 2: "adjust_layer_height_profile params_plain [0, 0.2, 10, 0.2] 5 0.05 2
        LAYER_HEIGHT_EDIT_ACTION_SMOOTH = Some [0, 0.2, 10, 0.2]" by auto
  from v c o m 1 2 show ?thesis by blast
qed

subsection \<open>adjust_layer_height_profile: the index of the prefix\<close>

text \<open>When the first layer is not fixed and the band reaches down to 0, the loop that
  looks for the prefix stops at index 0, the index wraps, and an edit that is not
  refused in step 2 reads outside the profile.\<close>

lemma adjust_prefix_wraps:
  assumes v: "valid_profile sp p" and lenp: "length p < 2 ^ 63"
    and nf: "\<not> first_object_layer_height_fixed sp"
    and win: "0 \<le> z" "z \<le> object_print_z_height sp"
    and lo: "z - 0.5 * band_width \<le> 0" and hi: "0 < z + 0.5 * band_width"
    and c: "current_layer_height sp p z = Some current"
    and d: "apply_delta_possible sp action d current = Some d'"
  shows "seek p (max (fst (z_span_variable sp)) (z - 0.5 * band_width)) 0 = 0
         \<and> adjust_layer_height_profile sp p z d band_width action = None"
proof -
  have span: "z_span_variable sp = (0, object_print_z_height sp)"
    using nf by (simp add: z_span_variable_def)
  have lo0: "max (fst (z_span_variable sp)) (z - 0.5 * band_width) = 0"
    using lo by (simp add: span)
  have p0: "p ! 0 = 0" using v by (simp add: valid_profile_def)
  have sk: "seek p 0 0 = 0" using p0 by (subst seek.simps) simp
  have idx: "size_sub 0 2 = 2 ^ 64 - 2" by (simp add: size_sub_def)
  have sa: "size_add (2 ^ 64 - 2) 2 = 0" by (simp add: size_add_def)
  have "rd p (2 ^ 64 - 2) = None" using lenp by (simp add: rd_def)
  then have h: "height_at_cursor p (2 ^ 64 - 2) 0 = None" by (simp add: height_at_cursor_def)
  have "resample_loop sp p z d' band_width action (z + 0.5 * band_width) 0 (2 ^ 64 - 2) [] = None"
    using hi h by (subst resample_loop.simps) simp
  then have "resample_band sp p z d' band_width action = None"
    unfolding resample_band_def Let_def lo0 sk idx sa by simp
  then have "adjust_layer_height_profile sp p z d band_width action = None"
    using win c d by (simp add: adjust_layer_height_profile_def span)
  with sk lo0 show ?thesis by simp
qed

text \<open>
  C9. For a valid profile and an edit inside the variable window, not every index the
  function uses is within bounds. When the first layer is not fixed and
  \<open>z - band_width / 2 \<le> 0\<close>, \<open>lo\<close> is 0, the loop that looks for the prefix does not
  advance, \<open>idx -= 2\<close> wraps to \<open>2 ^ 64 - 2\<close>, and the first iteration of the resampling
  loop reads \<open>layer_height_profile[idx]\<close> outside the vector: so for the profile
  \<open>[0, 0.2, 10, 0.2]\<close> and an increase by 0.05 at z = 0.5 with a band of width 2.
\<close>

theorem adjust_prefix_seek_out_of_bounds:
  "valid_profile params_plain [0, 0.2, 10, 0.2]
   \<and> \<not> first_object_layer_height_fixed params_plain
   \<and> fst (z_span_variable params_plain) \<le> 0.5 \<and> 0.5 \<le> snd (z_span_variable params_plain)
   \<and> seek [0, 0.2, 10, 0.2] (max (fst (z_span_variable params_plain)) (0.5 - 0.5 * 2)) 0 = 0
   \<and> size_sub 0 2 = 18446744073709551614
   \<and> rd [0, 0.2, 10, 0.2 :: real] (size_sub 0 2) = None
   \<and> adjust_layer_height_profile params_plain [0, 0.2, 10, 0.2] 0.5 0.05 2
        LAYER_HEIGHT_EDIT_ACTION_INCREASE = None"
  by (simp add: valid_profile_def heights_within_def adjust_layer_height_profile_def params_defs
        current_layer_height_def current_layer_height_loop.simps seek.simps
        resample_loop.simps rd_def lerp_same increase_delta_def resample_band_def
        size_sub_def size_add_def height_at_cursor_def Let_def)

subsection \<open>generate_layer_height_texture\<close>

lemma texture_returns_grid:
  assumes "generate_layer_height_texture fl sp layers data rows cols lod = Some (data', n)"
  shows "\<exists>g. texture_grid_of fl sp rows cols = Some g \<and> ncells g = n"
  using assms
  by (auto simp: generate_layer_height_texture_def split: Option.bind_splits)

lemma texture_grid_ncells:
  assumes "texture_grid_of fl sp rows cols = Some g"
  shows "\<exists>height q m. object_print_z_height_double fl sp = Some height
           \<and> min_layer_height sp \<noteq> 0
           \<and> fl (height / min_layer_height sp) = Some q
           \<and> fl (16 * q) = Some m
           \<and> ncells g = min ((cols - 1) * rows) \<lceil>m\<rceil>"
  using assms
  by (auto simp: texture_grid_of_def double_div_def int32_def int_of_double_def Let_def
        split: Option.bind_splits if_splits)

lemma int32_in: "- (2 ^ 31) \<le> x \<Longrightarrow> x < 2 ^ 31 \<Longrightarrow> int32 x = Some x"
  by (simp add: int32_def)

lemma int_of_double_int: "int_of_double (real_of_int k) = int32 k"
  by (simp add: int_of_double_def)

lemma int_div_2:
  "- (2 ^ 31) \<le> a \<Longrightarrow> a < 2 ^ 31
    \<Longrightarrow> \<exists>b. int_div a 2 = Some b \<and> - (2 ^ 30) \<le> b \<and> b < 2 ^ 30"
  by (auto simp: int_div_def int32_def sgn_if)

text \<open>The values before the loop are computed without a fault for a texture of at
  least one row and two columns whose \<open>rows * cols * 4\<close> bytes are counted by an \<open>int\<close>,
  when \<open>min_layer_height\<close> is not zero and the rounded \<open>16 * (height / min_layer_height)\<close>
  is finite and within the range of \<open>int\<close>; then the call with no layer returns.\<close>

lemma texture_grid_returns:
  assumes rows: "1 \<le> rows" and cols: "2 \<le> cols" and size: "rows * cols * 4 < 2 ^ 31"
    and h: "object_print_z_height_double fl sp = Some height"
    and min0: "min_layer_height sp \<noteq> 0"
    and q: "fl (height / min_layer_height sp) = Some q"
    and m: "fl (16 * q) = Some m"
    and lo: "- (2 ^ 31) < m" and hi: "m < 2 ^ 31 - 1"
  shows "\<exists>g. texture_grid_of fl sp rows cols = Some g
             \<and> ncells g = min ((cols - 1) * rows) \<lceil>m\<rceil>"
proof -
  have pos: "0 \<le> rows * cols" "0 \<le> (cols - 1) * rows" using rows cols by simp_all
  have "(cols - 1) * rows \<le> rows * cols" using rows cols by (simp add: algebra_simps)
  with pos size have b: "rows * cols < 2 ^ 31" "(cols - 1) * rows < 2 ^ 31" by linarith+
  have c: "- (2 ^ 31) < \<lceil>m\<rceil>" "\<lceil>m\<rceil> < 2 ^ 31"
    using lo hi by (simp_all add: less_ceiling_iff ceiling_less_iff)
  define nc where "nc = min ((cols - 1) * rows) \<lceil>m\<rceil>"
  have n: "- (2 ^ 31) < nc" "nc < 2 ^ 31" using c pos b by (auto simp: nc_def)
  from int_div_2 [of nc] n obtain nc1 where
    nc1: "int_div nc 2 = Some nc1" "- (2 ^ 30) \<le> nc1" "nc1 < 2 ^ 30" by auto
  have "cols \<le> rows * cols" using rows cols by (simp add: mult_le_cancel_right1)
  with b cols have cb: "- (2 ^ 31) \<le> cols" "cols < 2 ^ 31" by linarith+
  with int_div_2 [of cols] obtain co1 where co1: "int_div cols 2 = Some co1" by blast
  have lowc: "- (2 ^ 31) \<le> cols - 1" "cols - 1 < 2 ^ 31"
    using cb cols by linarith+
  have i1: "int32 (rows * cols) = Some (rows * cols)"
    by (rule int32_in) (use pos b in linarith)+
  have i2: "int32 (rows * cols * 4) = Some (rows * cols * 4)"
    by (rule int32_in) (use pos size in linarith)+
  have i3: "int32 (cols - 1) = Some (cols - 1)"
    by (rule int32_in) (use lowc in linarith)+
  have i4: "int32 ((cols - 1) * rows) = Some ((cols - 1) * rows)"
    by (rule int32_in) (use pos b in linarith)+
  have i5: "int_of_double (real_of_int \<lceil>m\<rceil>) = Some \<lceil>m\<rceil>"
    unfolding int_of_double_int by (rule int32_in) (use c in linarith)+
  have i6: "int32 (nc - 1) = Some (nc - 1)"
    by (rule int32_in) (use n in linarith)+
  have i7: "int32 (nc1 - 1) = Some (nc1 - 1)"
    by (rule int32_in) (use nc1(2,3) in simp_all)
  show ?thesis
    unfolding texture_grid_of_def double_div_def
    by (simp add: h min0 q m i1 i2 i3 i4 i5 i6 i7 nc1 co1 Let_def nc_def [symmetric])
qed

lemma texture_returns_without_layers:
  assumes "1 \<le> rows" and "2 \<le> cols" and "rows * cols * 4 < 2 ^ 31"
    and "object_print_z_height_double fl sp = Some height"
    and "min_layer_height sp \<noteq> 0"
    and "fl (height / min_layer_height sp) = Some q"
    and "fl (16 * q) = Some m"
    and "- (2 ^ 31) < m" and "m < 2 ^ 31 - 1"
  shows "generate_layer_height_texture fl sp [] data rows cols lod
           = Some (data, min ((cols - 1) * rows) \<lceil>m\<rceil>)"
  using texture_grid_returns [OF assms]
  by (auto simp: generate_layer_height_texture_def)

text \<open>
  C10. The specification says that the function always returns
  \<open>min((cols - 1) * rows, ceil(16 * object_print_z_height / min_layer_height))\<close>, whatever
  the layers and the flag of the second level of detail are. Whether it returns depends
  on both: on a texture of 1 row and 3 columns the layer \<open>(1, 1.25)\<close> covers no cell of
  the main level and the call returns 2 without the second level; with the second
  level, which has \<open>cols / 2 = 1\<close> column, the layer covers its cell 0, whose row is
  \<open>cell / (cols1 - 1)\<close>, a division by zero; with no layer the call returns 2 again.
\<close>

theorem texture_returns_counterexample:
  "generate_layer_height_texture fl_exact params_dyadic [1, 1.25] black 1 3 False
     = Some (black, 2)
   \<and> generate_layer_height_texture fl_exact params_dyadic [1, 1.25] black 1 3 True = None
   \<and> generate_layer_height_texture fl_exact params_dyadic [] black 1 3 True = Some (black, 2)"
proof -
  have top: "object_print_z_height_double fl_exact params_dyadic = Some 8"
    by (simp add: object_print_z_height_double_def fl_exact_def params_dyadic_def
          object_print_z_height_def)
  have g: "texture_grid_of fl_exact params_dyadic 1 3
             = Some \<lparr> ncells = 2, ncells1 = 1, cols1 = 1, data1 = 12,
                      z_to_cell = Some (1 / 8), cell_to_z = Some 8, z_to_cell1 = Some 0,
                      hscale = 0.5 \<rparr>"
    unfolding texture_grid_of_def top
    by (simp add: double_div_def fl_exact_def int32_def int_of_double_def int_div_def Let_def
          params_dyadic_def)
  have main: "cell_range fl_exact 2 (Some (1 / 8)) 1 (5 / 4) = Some (1, 0)"
    by (simp add: cell_range_def fl_exact_def int32_def int_of_double_def clamp_int_def)
  have second: "cell_range fl_exact 1 (Some 0) 1 (5 / 4) = Some (0, 0)"
    by (simp add: cell_range_def fl_exact_def int32_def int_of_double_def clamp_int_def)
  have none: "fill_cell fl_exact params_dyadic (1 / 2) (1 / 4) None 12 1 0 black = None"
    by (simp add: fill_cell_def int32_def int_div_def split: Option.bind_splits)
  have a: "generate_layer_height_texture fl_exact params_dyadic [1, 1.25] black 1 3 False
             = Some (black, 2)"
    by (simp add: generate_layer_height_texture_def g top main fill_cells.simps)
  have b: "generate_layer_height_texture fl_exact params_dyadic [1, 1.25] black 1 3 True = None"
    by (simp add: generate_layer_height_texture_def g top main second none
          fill_cells.simps [of _ _ _ _ _ _ _ 0 0] fill_cells.simps [of _ _ _ _ _ _ _ 1 0])
  have c: "generate_layer_height_texture fl_exact params_dyadic [] black 1 3 True
             = Some (black, 2)"
    by (simp add: generate_layer_height_texture_def g)
  from a b c show ?thesis by simp
qed

text \<open>
  C10, as the code has it: whenever the function returns, it returns
  \<open>min((cols - 1) * rows, ceil(16. * (object_print_z_height / min_layer_height)))\<close> with
  the height of the object, the quotient and the product rounded as \<open>double\<close> rounds
  them: none of the three is an infinity and \<open>min_layer_height\<close> is not zero. Two calls
  that return, with the same parameters, \<open>rows\<close> and \<open>cols\<close>, return the same number
  whatever their layers, buffers and flags are; and whenever a call returns, the call
  with no layer returns too, with the buffer as it was.
\<close>

theorem texture_ncells:
  assumes "generate_layer_height_texture fl sp layers data rows cols lod = Some (data', n)"
    and "generate_layer_height_texture fl sp layers2 data2 rows cols lod2 = Some (data2', n2)"
  shows "(\<exists>height q m. object_print_z_height_double fl sp = Some height
            \<and> min_layer_height sp \<noteq> 0
            \<and> fl (height / min_layer_height sp) = Some q
            \<and> fl (16 * q) = Some m
            \<and> n = min ((cols - 1) * rows) \<lceil>m\<rceil>)
       \<and> n2 = n
       \<and> generate_layer_height_texture fl sp [] data rows cols lod = Some (data, n)"
proof -
  from texture_returns_grid [OF assms(1)] obtain g where
    g: "texture_grid_of fl sp rows cols = Some g" "ncells g = n" by blast
  from texture_returns_grid [OF assms(2)] g have "n2 = n" by auto
  moreover from texture_grid_ncells [OF g(1)] g(2)
  have "\<exists>height q m. object_print_z_height_double fl sp = Some height
            \<and> min_layer_height sp \<noteq> 0
            \<and> fl (height / min_layer_height sp) = Some q
            \<and> fl (16 * q) = Some m
            \<and> n = min ((cols - 1) * rows) \<lceil>m\<rceil>" by simp
  moreover from g have "generate_layer_height_texture fl sp [] data rows cols lod = Some (data, n)"
    by (simp add: generate_layer_height_texture_def)
  ultimately show ?thesis by blast
qed

theorem texture_ncells_witness:
  "\<exists>d. generate_layer_height_texture fl_exact params_dyadic [0.375, 0.625] black 3 12 True
         = Some (d, 33)
       \<and> generate_layer_height_texture fl_exact params_dyadic [] black 3 12 False
         = Some (black, 33)
       \<and> (\<exists>height q m. object_print_z_height_double fl_exact params_dyadic = Some height
            \<and> min_layer_height params_dyadic \<noteq> 0
            \<and> fl_exact (height / min_layer_height params_dyadic) = Some q
            \<and> fl_exact (16 * q) = Some m
            \<and> (33 :: int) = min ((12 - 1) * 3) \<lceil>m\<rceil>)
       \<and> generate_layer_height_texture fl_exact params_dyadic [] black 3 12 True
         = Some (black, 33)"
proof -
  have top: "object_print_z_height_double fl_exact params_dyadic = Some 8"
    by (simp add: object_print_z_height_double_def fl_exact_def params_dyadic_def
          object_print_z_height_def)
  have g: "texture_grid_of fl_exact params_dyadic 3 12
             = Some \<lparr> ncells = 33, ncells1 = 16, cols1 = 6, data1 = 144,
                      z_to_cell = Some 4, cell_to_z = Some (1 / 4),
                      z_to_cell1 = Some (15 / 8), hscale = 0.5 \<rparr>"
    unfolding texture_grid_of_def top
    by (simp add: double_div_def fl_exact_def int32_def int_of_double_def int_div_def Let_def
          params_dyadic_def)
  have main: "cell_range fl_exact 33 (Some 4) (3 / 8) (5 / 8) = Some (2, 2)"
    by (simp add: cell_range_def fl_exact_def int32_def int_of_double_def clamp_int_def)
  have second: "cell_range fl_exact 16 (Some (15 / 8)) (3 / 8) (5 / 8) = Some (1, 1)"
    by (simp add: cell_range_def fl_exact_def int32_def int_of_double_def clamp_int_def)
  have lh: "layer_height params_dyadic = 0.25"
    by (simp add: params_dyadic_def)
  have col: "layer_color fl_exact params_dyadic (1 / 2) (1 / 4) 1 = Some (236, 236, 235)"
    by (simp add: layer_color_def double_div_def fl_exact_def lh int_of_double_def int32_def
          clamp_int_def palette_raw_def rd_def color_channel_def lerp_def Let_def)
  have c1: "\<exists>d. fill_cell fl_exact params_dyadic (1 / 2) (1 / 4) (Some (1 / 2, Some (1 / 4)))
                 0 12 2 black = Some d"
    by (simp add: fill_cell_def cell_intensity_def double_div_def fl_exact_def col int32_def
          int_div_def write_cell_def Let_def)
  then obtain d1 where d1: "fill_cell fl_exact params_dyadic (1 / 2) (1 / 4)
      (Some (1 / 2, Some (1 / 4))) 0 12 2 black = Some d1" by blast
  have c2: "\<exists>d. fill_cell fl_exact params_dyadic (1 / 2) (1 / 4) None 144 6 1 d1 = Some d"
    by (simp add: fill_cell_def cell_intensity_def col int32_def int_div_def write_cell_def
          Let_def)
  then obtain d2 where d2: "fill_cell fl_exact params_dyadic (1 / 2) (1 / 4) None 144 6 1 d1
      = Some d2"
    by blast
  have r1: "generate_layer_height_texture fl_exact params_dyadic [0.375, 0.625] black 3 12 True
         = Some (d2, 33)"
    by (simp add: generate_layer_height_texture_def g top main second d1 d2 Let_def
          fill_cells.simps [of _ _ _ _ _ _ _ 2 2] fill_cells.simps [of _ _ _ _ _ _ _ 3 2]
          fill_cells.simps [of _ _ _ _ _ _ _ 1 1] fill_cells.simps [of _ _ _ _ _ _ _ 2 1])
  have r2: "generate_layer_height_texture fl_exact params_dyadic [] black 3 12 False
         = Some (black, 33)"
    by (simp add: generate_layer_height_texture_def g)
  from texture_ncells [OF r1 r2] r1 r2 show ?thesis by blast
qed

subsection \<open>generate_object_layers\<close>

lemma chain_from_abutting: "chain_from z ps \<Longrightarrow> abutting ps \<and> abutting ((a, z) # ps)"
  by (induction z ps arbitrary: a rule: chain_from.induct) auto

lemma generate_loop_appends:
  assumes "generate_loop sp p print_z slice_z idx out = Some r"
  shows "\<forall>out'. r = Some out' \<longrightarrow>
           (\<exists>app. out' = out @ app \<and> even (length app)
              \<and> chain_from print_z (layer_pairs app)
              \<and> list_all (below_top sp) (layer_pairs app))"
proof (rule generate_loop.raw_induct
    [where P = "\<lambda>sp p print_z slice_z idx out r. \<forall>out'. r = Some out' \<longrightarrow>
           (\<exists>app. out' = out @ app \<and> even (length app)
              \<and> chain_from print_z (layer_pairs app)
              \<and> list_all (below_top sp) (layer_pairs app))", OF _ assms])
  fix f :: "SlicingParameters \<Rightarrow> real list \<Rightarrow> real \<Rightarrow> real \<Rightarrow> nat \<Rightarrow> real list
              \<Rightarrow> real list option option"
    and sp p print_z slice_z idx out r
  assume IH: "\<And>sp p print_z slice_z idx out r.
      f sp p print_z slice_z idx out = Some r
      \<Longrightarrow> \<forall>out'. r = Some out' \<longrightarrow>
           (\<exists>app. out' = out @ app \<and> even (length app)
              \<and> chain_from print_z (layer_pairs app)
              \<and> list_all (below_top sp) (layer_pairs app))"
  assume eq: "(if slice_z < object_print_z_height sp
        then case layer_height_at sp p slice_z idx of
               None \<Rightarrow> Some None
             | Some (height, idx') \<Rightarrow>
                 if object_print_z_height sp \<le> print_z + 0.5 * height then Some (Some out)
                 else f sp p (print_z + height)
                        (print_z + height + 0.5 * min_layer_height sp) idx'
                        (out @ [print_z, print_z + height])
        else Some (Some out)) = Some r"
  show "\<forall>out'. r = Some out' \<longrightarrow>
           (\<exists>app. out' = out @ app \<and> even (length app)
              \<and> chain_from print_z (layer_pairs app)
              \<and> list_all (below_top sp) (layer_pairs app))"
  proof (intro allI impI)
    fix out'
    assume r: "r = Some out'"
    show "\<exists>app. out' = out @ app \<and> even (length app)
              \<and> chain_from print_z (layer_pairs app)
              \<and> list_all (below_top sp) (layer_pairs app)"
    proof (cases "slice_z < object_print_z_height sp")
      case False
      with eq r have "out' = out @ []" by simp
      then show ?thesis by force
    next
      case True
      show ?thesis
      proof (cases "layer_height_at sp p slice_z idx")
        case None
        with True eq r show ?thesis by simp
      next
        case (Some a)
        obtain height idx' where a: "a = (height, idx')" by force
        show ?thesis
        proof (cases "object_print_z_height sp \<le> print_z + 0.5 * height")
          case t: True
          with True Some a eq r have "out' = out @ []" by simp
          then show ?thesis by force
        next
          case f: False
          with True Some a eq r have "f sp p (print_z + height)
                        (print_z + height + 0.5 * min_layer_height sp) idx'
                        (out @ [print_z, print_z + height]) = Some (Some out')" by simp
          from IH [OF this] obtain app where app: "out' = (out @ [print_z, print_z + height]) @ app"
            "even (length app)" "chain_from (print_z + height) (layer_pairs app)"
            "list_all (below_top sp) (layer_pairs app)" by blast
          have "below_top sp (print_z, print_z + height)" using f by (simp add: below_top_def)
          with app have "out' = out @ ([print_z, print_z + height] @ app)
              \<and> even (length ([print_z, print_z + height] @ app))
              \<and> chain_from print_z (layer_pairs ([print_z, print_z + height] @ app))
              \<and> list_all (below_top sp) (layer_pairs ([print_z, print_z + height] @ app))"
            by simp
          then show ?thesis by blast
        qed
      qed
    qed
  qed
qed

text \<open>For a valid profile and a minimum layer height above \<open>EPSILON\<close> every read is
  inside the profile, every layer is higher than \<open>min_layer_height - EPSILON\<close>, and the
  loop ends.\<close>

lemma height_entry:
  "even i \<Longrightarrow> i + 1 < length p \<Longrightarrow> p ! (i + 1) \<in> set (profile_heights p)"
proof (induction p arbitrary: i rule: profile_heights.induct)
  case (1 z h rest)
  show ?case
  proof (cases "i = 0")
    case True
    then show ?thesis by simp
  next
    case False
    with 1(2) have "2 \<le> i" by presburger
    define j where "j = i - 2"
    have j: "i = j + 2" "even j" using \<open>2 \<le> i\<close> 1(2) by (simp_all add: j_def)
    with 1 have "rest ! (j + 1) \<in> set (profile_heights rest)" by simp
    then show ?thesis using j by simp
  qed
qed simp_all

lemma advance_cursor_inv:
  assumes "even (length p)"
  shows "even idx \<Longrightarrow> nxt = idx + 2 \<Longrightarrow> idx < length p \<Longrightarrow> p ! idx \<le> slice_z
    \<Longrightarrow> advance_cursor p slice_z idx nxt = (i, n)
    \<Longrightarrow> even i \<and> n = i + 2 \<and> i < length p \<and> p ! i \<le> slice_z
        \<and> (n < length p \<longrightarrow> slice_z < p ! n)"
proof (induction p slice_z idx nxt rule: advance_cursor.induct)
  case (1 p slice_z idx nxt)
  show ?case
  proof (cases "nxt \<ge> length p \<or> slice_z < p ! nxt")
    case True
    with 1(6) have "i = idx" "n = nxt" by (simp_all add: advance_cursor.simps [of p slice_z idx nxt])
    with 1(2-5) True show ?thesis by auto
  next
    case False
    with 1(6) have call: "advance_cursor p slice_z nxt (nxt + 2) = (i, n)"
      by (simp add: advance_cursor.simps [of p slice_z idx nxt])
    have nx: "even nxt" "nxt < length p" "p ! nxt \<le> slice_z" using False 1(2,3) by auto
    from 1(1) [OF False nx(1) refl nx(2,3) call] show ?thesis .
  qed
qed

lemma layer_height_at_valid:
  assumes v: "valid_profile sp p" and "even idx" and "idx < length p" and "p ! idx \<le> slice_z"
  shows "\<exists>h idx'. layer_height_at sp p slice_z idx = Some (h, idx')
           \<and> min_layer_height sp - EPSILON < h \<and> h < max_layer_height sp + EPSILON
           \<and> even idx' \<and> idx' < length p \<and> p ! idx' \<le> slice_z"
proof -
  have ev: "even (length p)" using v by (simp add: valid_profile_def)
  have hs: "\<And>i. even i \<Longrightarrow> i + 1 < length p \<Longrightarrow>
      min_layer_height sp - EPSILON < p ! (i + 1) \<and> p ! (i + 1) < max_layer_height sp + EPSILON"
    using v height_entry [of _ p] by (auto simp: valid_profile_def heights_within_def list_all_iff)
  obtain i n where a: "advance_cursor p slice_z idx (idx + 2) = (i, n)" by force
  from advance_cursor_inv [OF ev assms(2) refl assms(3,4) a]
  have i: "even i" "n = i + 2" "i < length p" "p ! i \<le> slice_z"
    "n < length p \<longrightarrow> slice_z < p ! n" by auto
  have i1: "i + 1 < length p" using i(1,3) ev by presburger
  show ?thesis
  proof (cases "n < length p")
    case False
    then have "layer_height_at sp p slice_z idx = Some (p ! (i + 1), i)"
      using assms(3) a i i1 by (simp add: layer_height_at_def rd_def)
    with hs [OF i(1) i1] i show ?thesis by simp
  next
    case True
    then have n1: "n + 1 < length p" using i(1,2) ev by presburger
    have even_n: "even n" using i by simp
    define t where "t = (slice_z - p ! i) / (p ! n - p ! i)"
    have lt: "slice_z < p ! n" using i True by simp
    then have pos: "0 < p ! n - p ! i" using i(4) by simp
    have t0: "0 \<le> t" using i(4) pos by (simp add: t_def)
    have t1: "t \<le> 1" using lt pos by (simp add: t_def)
    have "layer_height_at sp p slice_z idx = Some (lerp (p ! (i + 1)) (p ! (n + 1)) t, i)"
      using assms(3) a i i1 True n1 by (simp add: layer_height_at_def rd_def t_def)
    moreover have "min_layer_height sp - EPSILON < lerp (p ! (i + 1)) (p ! (n + 1)) t
       \<and> lerp (p ! (i + 1)) (p ! (n + 1)) t < max_layer_height sp + EPSILON"
      using lerp_between [OF t0 t1] hs [OF i(1) i1] hs [OF even_n n1] by blast
    ultimately show ?thesis using i by simp
  qed
qed

lemma generate_loop_steps:
  assumes v: "valid_profile sp p" and c: "EPSILON < min_layer_height sp"
  shows "object_print_z_height sp - print_z < real n * (min_layer_height sp - EPSILON)
     \<Longrightarrow> even idx \<Longrightarrow> idx < length p \<Longrightarrow> p ! idx \<le> print_z + 0.5 * min_layer_height sp
     \<Longrightarrow> \<exists>out'. generate_loop sp p print_z (print_z + 0.5 * min_layer_height sp) idx out
                = Some (Some out')"
proof (induction n arbitrary: print_z idx out)
  case 0
  have "0 < min_layer_height sp" using c by (simp add: EPSILON_def)
  with 0 have "\<not> print_z + 0.5 * min_layer_height sp < object_print_z_height sp" by simp
  then show ?case by (subst generate_loop.simps) simp
next
  case (Suc n)
  show ?case
  proof (cases "print_z + 0.5 * min_layer_height sp < object_print_z_height sp")
    case False
    then show ?thesis by (subst generate_loop.simps) simp
  next
    case True
    from layer_height_at_valid [OF v Suc.prems(2,3,4)] obtain h idx' where
      h: "layer_height_at sp p (print_z + 0.5 * min_layer_height sp) idx = Some (h, idx')"
      "min_layer_height sp - EPSILON < h" "even idx'" "idx' < length p"
      "p ! idx' \<le> print_z + 0.5 * min_layer_height sp" by blast
    show ?thesis
    proof (cases "object_print_z_height sp \<le> print_z + 0.5 * h")
      case t: True
      with True h(1) show ?thesis by (subst generate_loop.simps) simp
    next
      case False
      have "object_print_z_height sp - (print_z + h) < real n * (min_layer_height sp - EPSILON)"
        using Suc.prems(1) h(2) by (simp add: algebra_simps)
      moreover have "p ! idx' \<le> print_z + h + 0.5 * min_layer_height sp"
        using h(2,5) c by simp
      ultimately obtain out' where
        "generate_loop sp p (print_z + h) (print_z + h + 0.5 * min_layer_height sp) idx'
           (out @ [print_z, print_z + h]) = Some (Some out')"
        using Suc.IH [of "print_z + h" idx' "out @ [print_z, print_z + h]"] h(3,4) by blast
      with True False h(1) show ?thesis by (subst generate_loop.simps) simp
    qed
  qed
qed

lemma generate_object_layers_returns:
  assumes v: "valid_profile sp p" and c: "EPSILON < min_layer_height sp"
    and f: "0 \<le> first_object_layer_height sp"
  shows "\<exists>out. generate_object_layers sp p = Some (Some out)"
proof -
  define print_z where "print_z = (if first_object_layer_height_fixed sp
                     then first_object_layer_height sp else 0)"
  have pos: "0 < min_layer_height sp - EPSILON" using c by simp
  then obtain n where n: "object_print_z_height sp - print_z < real n * (min_layer_height sp - EPSILON)"
    using reals_Archimedean3 by blast
  have "0 < min_layer_height sp" using c by (simp add: EPSILON_def)
  then have "p ! 0 \<le> print_z + 0.5 * min_layer_height sp"
    using v f by (simp add: valid_profile_def print_z_def)
  moreover have "0 < length p" using v by (auto simp add: valid_profile_def)
  ultimately have "\<exists>out'. generate_loop sp p print_z (print_z + 0.5 * min_layer_height sp) 0
        (if first_object_layer_height_fixed sp then [0, first_object_layer_height sp] else [])
         = Some (Some out')"
    using generate_loop_steps [OF v c n, of 0] by simp
  then show ?thesis
    unfolding generate_object_layers_def print_z_def Let_def .
qed

lemma generate_object_layers_appends:
  assumes "generate_object_layers sp p = Some (Some out)"
  shows "\<exists>app. out = (if first_object_layer_height_fixed sp
                        then [0, first_object_layer_height sp] else []) @ app
           \<and> even (length app)
           \<and> chain_from (if first_object_layer_height_fixed sp
                          then first_object_layer_height sp else 0) (layer_pairs app)
           \<and> list_all (below_top sp) (layer_pairs app)"
  using generate_loop_appends [OF assms [unfolded generate_object_layers_def Let_def]]
  by simp

text \<open>
  C5. Whenever \<open>generate_object_layers\<close> returns, the layers it emits abut: each one
  starts exactly where the one before ends; the first one starts at 0; and when the
  first object layer is fixed, the first layer is \<open>(0, first_object_layer_height)\<close>.
  It returns for every valid profile when \<open>min_layer_height\<close> is above \<open>EPSILON\<close> and
  \<open>first_object_layer_height\<close> is not negative.
\<close>

theorem generate_object_layers_abutting:
  "(\<forall>out. generate_object_layers sp p = Some (Some out) \<longrightarrow>
       even (length out) \<and> abutting (layer_pairs out)
       \<and> (layer_pairs out \<noteq> [] \<longrightarrow> fst (hd (layer_pairs out)) = 0)
       \<and> (first_object_layer_height_fixed sp \<longrightarrow>
            layer_pairs out \<noteq> []
            \<and> hd (layer_pairs out) = (0, first_object_layer_height sp)))
   \<and> (valid_profile sp p \<and> EPSILON < min_layer_height sp \<and> 0 \<le> first_object_layer_height sp
        \<longrightarrow> (\<exists>out. generate_object_layers sp p = Some (Some out)))"
proof (intro conjI allI impI)
  fix out
  assume a: "generate_object_layers sp p = Some (Some out)"
  from generate_object_layers_appends [OF a] obtain app where app:
    "out = (if first_object_layer_height_fixed sp
            then [0, first_object_layer_height sp] else []) @ app"
    "even (length app)"
    "chain_from (if first_object_layer_height_fixed sp
                 then first_object_layer_height sp else 0) (layer_pairs app)"
    by blast
  show "even (length out)" using app(1,2) by simp
  show "abutting (layer_pairs out)"
    using chain_from_abutting [OF app(3), of 0] app(1) by (simp split: if_splits)
  show "fst (hd (layer_pairs out)) = 0" if "layer_pairs out \<noteq> []"
  proof (cases "first_object_layer_height_fixed sp")
    case True
    then show ?thesis using app(1) by simp
  next
    case False
    with app(1,3) that show ?thesis by (cases "layer_pairs app") auto
  qed
  show "layer_pairs out \<noteq> []" if "first_object_layer_height_fixed sp"
    using that app(1) by simp
  show "hd (layer_pairs out) = (0, first_object_layer_height sp)"
    if "first_object_layer_height_fixed sp"
    using that app(1) by simp
next
  assume "valid_profile sp p \<and> EPSILON < min_layer_height sp \<and> 0 \<le> first_object_layer_height sp"
  then show "\<exists>out. generate_object_layers sp p = Some (Some out)"
    using generate_object_layers_returns by blast
qed

theorem generate_object_layers_abutting_witness:
  "valid_profile params_S2 [0, 0.3, 1.5, 0.2] \<and> EPSILON < min_layer_height params_S2
   \<and> 0 \<le> first_object_layer_height params_S2 \<and> first_object_layer_height_fixed params_S2
   \<and> (\<exists>out. generate_object_layers params_S2 [0, 0.3, 1.5, 0.2] = Some (Some out)
         \<and> even (length out) \<and> abutting (layer_pairs out)
         \<and> hd (layer_pairs out) = (0, 0.3))"
proof -
  have v: "valid_profile params_S2 [0, 0.3, 1.5, 0.2] \<and> EPSILON < min_layer_height params_S2
   \<and> 0 \<le> first_object_layer_height params_S2"
    by (simp add: valid_profile_def heights_within_def params_defs)
  have f: "first_object_layer_height_fixed params_S2" "first_object_layer_height params_S2 = 0.3"
    by (simp_all add: params_defs)
  note t = generate_object_layers_abutting [of params_S2 "[0, 0.3, 1.5, 0.2]"]
  from t v obtain out where out: "generate_object_layers params_S2 [0, 0.3, 1.5, 0.2] = Some (Some out)"
    by blast
  with t f have "even (length out) \<and> abutting (layer_pairs out)
         \<and> hd (layer_pairs out) = (0, 0.3)" by metis
  with v f out show ?thesis by blast
qed




subsection \<open>adjust_layer_height_profile: what an edit preserves\<close>




























end
